theory Spec2Isabelle
  imports Main "HOL-Library.AList" "HOL-Library.Sublist"
begin

section \<open>JavaScript values\<close>

text \<open>
  The adapter (src/Bot.mjs) works on dynamically typed payloads: Slack events, user
  records, envelopes, outgoing messages. They are modelled by one datatype of values:
  the JSON values a payload can hold, plus \<open>undefined\<close> and \<open>NaN\<close>.

  \<^item> A number is an integer or \<open>NaN\<close>. The only arithmetic of the program is
    \<open>Date.now() - TTL\<close> and one comparison; timestamps and TTLs are integers far
    below \<open>2^53\<close>, where JavaScript's doubles are exact.
  \<^item> A string is a list of characters (one \<open>char\<close> per code unit).
  \<^item> An array is the list of its elements.
  \<^item> An object is the list of its own enumerable properties in insertion order, which
    is the order \<open>for (key in obj)\<close> and \<open>{...obj}\<close> visit them (JavaScript
    moves integer-like keys to the front; no property below depends on the order).
    A well-formed object has no key twice. The property names the program reads by
    name are not members of \<open>Object.prototype\<close>, so a read by name sees own
    properties only; where the program tests \<open>key in obj\<close> or assigns
    \<open>obj[key] = value\<close> with a key taken from a payload, the members of
    \<open>Object.prototype\<close> are modelled (\<open>obj_in\<close>, \<open>obj_assign\<close>).
  \<^item> Objects carry no identity: \<open>===\<close> between two objects is \<open>false\<close>
    (two payloads are never the same reference).
  \<^item> Asynchronous methods are modelled as run to completion: the result of an
    \<open>async\<close> method is the value its promise resolves to, or the exception it
    rejects with, together with the state it leaves.
\<close>

datatype jsnum = Num int | NaN

datatype jsval =
    JUndefined
  | JNull
  | JBool bool
  | JNum jsnum
  | JStr string
  | JArr "jsval list"
  | JObj "(string \<times> jsval) list"

type_synonym jsobj = "(string \<times> jsval) list"

text \<open>What a \<open>throw\<close> or a rejected promise carries.\<close>

datatype exn = TypeError | Error string

subsection \<open>Numbers\<close>

text \<open>\<open>a === b\<close> on numbers: \<open>NaN\<close> is not equal to anything, itself included.\<close>

fun num_strict_eq :: "jsnum \<Rightarrow> jsnum \<Rightarrow> bool" where
  "num_strict_eq (Num a) (Num b) = (a = b)"
| "num_strict_eq _ _ = False"

text \<open>\<open>a - b\<close> and \<open>a < b\<close> on numbers.\<close>

fun num_sub :: "jsnum \<Rightarrow> jsnum \<Rightarrow> jsnum" where
  "num_sub (Num a) (Num b) = Num (a - b)"
| "num_sub _ _ = NaN"

fun num_lt :: "jsnum \<Rightarrow> jsnum \<Rightarrow> bool" where
  "num_lt (Num a) (Num b) = (a < b)"
| "num_lt _ _ = False"

subsection \<open>\<open>parseInt(s, 10)\<close>\<close>

text \<open>
  \<open>parseInt\<close> skips leading white space, reads an optional sign, then the longest run
  of decimal digits; with no digit the result is \<open>NaN\<close>. White space is the part
  of JavaScript's that a \<open>char\<close> can hold: TAB, LF, VT, FF, CR, SPACE and the
  no-break space U+00A0 (the others are code units above \<open>0xFF\<close>). The result is the
  exact integer: beyond \<open>2^53\<close> \<open>parseInt\<close> rounds to the nearest double,
  which is not modelled.
\<close>

definition is_js_space :: "char \<Rightarrow> bool" where
  "is_js_space c = (c \<in> set [CHR 0x09, CHR 0x0A, CHR 0x0B, CHR 0x0C, CHR 0x0D, CHR 0x20, CHR 0xA0])"

definition is_digit :: "char \<Rightarrow> bool" where
  "is_digit c = (c \<in> set ''0123456789'')"

definition digit_val :: "char \<Rightarrow> int" where
  "digit_val c = int (of_char c) - 48"

definition digits_val :: "string \<Rightarrow> int" where
  "digits_val z = foldl (\<lambda>a c. 10 * a + digit_val c) 0 z"

definition parseInt10 :: "string \<Rightarrow> jsnum" where
  "parseInt10 s =
     (let t = dropWhile is_js_space s;
          neg = (t \<noteq> [] \<and> hd t = CHR ''-'');
          u = (if t \<noteq> [] \<and> (hd t = CHR ''-'' \<or> hd t = CHR ''+'') then tl t else t);
          z = takeWhile is_digit u
      in if z = [] then NaN
         else Num ((if neg then - 1 else 1) * digits_val z))"

subsection \<open>Truthiness, property reads, conversion to string\<close>

text \<open>What \<open>if (v)\<close>, \<open>!v\<close>, \<open>a || b\<close> and \<open>a && b\<close> test.\<close>

fun truthy :: "jsval \<Rightarrow> bool" where
  "truthy JUndefined = False"
| "truthy JNull = False"
| "truthy (JBool b) = b"
| "truthy (JNum (Num n)) = (n \<noteq> 0)"
| "truthy (JNum NaN) = False"
| "truthy (JStr s) = (s \<noteq> [])"
| "truthy (JArr xs) = True"
| "truthy (JObj ps) = True"

text \<open>What \<open>v == null\<close>, \<open>v != null\<close>, \<open>v ?? d\<close> and \<open>v?.k\<close> test.\<close>

definition nullish :: "jsval \<Rightarrow> bool" where
  "nullish v = (v = JUndefined \<or> v = JNull)"

definition nullish_or :: "jsval \<Rightarrow> jsval \<Rightarrow> jsval" where
  "nullish_or v d = (if nullish v then d else v)"

text \<open>\<open>a === b\<close>: no conversion; \<open>NaN\<close> differs from itself; objects and arrays
  are compared by reference and two payloads are never the same reference.\<close>

fun js_strict_eq :: "jsval \<Rightarrow> jsval \<Rightarrow> bool" where
  "js_strict_eq JUndefined JUndefined = True"
| "js_strict_eq JNull JNull = True"
| "js_strict_eq (JBool a) (JBool b) = (a = b)"
| "js_strict_eq (JNum a) (JNum b) = num_strict_eq a b"
| "js_strict_eq (JStr a) (JStr b) = (a = b)"
| "js_strict_eq _ _ = False"

text \<open>Decimal digits of a natural number and of an integer, as \<open>String(n)\<close> prints
  them (below \<open>10^21\<close>, where JavaScript switches to the exponent form).\<close>

fun string_of_nat :: "nat \<Rightarrow> string" where
  "string_of_nat n =
     (if n < 10 then [''0123456789'' ! n]
      else string_of_nat (n div 10) @ [''0123456789'' ! (n mod 10)])"

definition string_of_int :: "int \<Rightarrow> string" where
  "string_of_int i = (if i < 0 then CHR ''-'' # string_of_nat (nat (- i)) else string_of_nat (nat i))"

fun join_comma :: "string list \<Rightarrow> string" where
  "join_comma [] = []"
| "join_comma [s] = s"
| "join_comma (s # t # ss) = s @ '','' @ join_comma (t # ss)"

text \<open>\<open>String(v)\<close>, which is also what a template literal \<open>`${v}`\<close> and a computed
  property key \<open>obj[v]\<close> apply to \<open>v\<close>.\<close>

fun to_string :: "jsval \<Rightarrow> string" where
  "to_string JUndefined = ''undefined''"
| "to_string JNull = ''null''"
| "to_string (JBool b) = (if b then ''true'' else ''false'')"
| "to_string (JNum (Num n)) = string_of_int n"
| "to_string (JNum NaN) = ''NaN''"
| "to_string (JStr s) = s"
| "to_string (JArr xs) = join_comma (map (\<lambda>x. if x = JUndefined \<or> x = JNull then [] else to_string x) xs)"
| "to_string (JObj ps) = ''[object Object]''"

text \<open>Own enumerable properties, in the order \<open>for (k in v)\<close> and \<open>{...v}\<close> visit
  them: the properties of an object, the indices of an array or of a string, nothing
  for the other values.\<close>

definition index_entries :: "jsval list \<Rightarrow> jsobj" where
  "index_entries xs = zip (map string_of_nat [0..<length xs]) xs"

fun own_entries :: "jsval \<Rightarrow> jsobj" where
  "own_entries (JObj ps) = ps"
| "own_entries (JArr xs) = index_entries xs"
| "own_entries (JStr s) = index_entries (map (\<lambda>c. JStr [c]) s)"
| "own_entries _ = []"

text \<open>\<open>obj.k\<close> on an object: the property, or \<open>undefined\<close>.\<close>

definition obj_get :: "jsobj \<Rightarrow> string \<Rightarrow> jsval" where
  "obj_get ps k = (case map_of ps k of None \<Rightarrow> JUndefined | Some v \<Rightarrow> v)"

text \<open>\<open>k\<close> is an own property of the object.\<close>

definition obj_has :: "jsobj \<Rightarrow> string \<Rightarrow> bool" where
  "obj_has ps k = (k \<in> fst ` set ps)"

text \<open>The property names of \<open>Object.prototype\<close>, which every plain object
  inherits.\<close>

definition object_prototype_keys :: "string list" where
  "object_prototype_keys =
     [''constructor'', ''__defineGetter__'', ''__defineSetter__'', ''hasOwnProperty'',
      ''__lookupGetter__'', ''__lookupSetter__'', ''isPrototypeOf'', ''propertyIsEnumerable'',
      ''toString'', ''valueOf'', ''__proto__'', ''toLocaleString'']"

text \<open>\<open>k in obj\<close> on a plain object: an own property or an inherited one.\<close>

definition obj_in :: "jsobj \<Rightarrow> string \<Rightarrow> bool" where
  "obj_in ps k = (obj_has ps k \<or> k \<in> set object_prototype_keys)"

text \<open>\<open>v.k\<close> on any value: a \<open>TypeError\<close> on \<open>undefined\<close> and \<open>null\<close>; strings
  and arrays have their length and their indices; numbers and booleans have no
  property the program reads.\<close>

fun js_get :: "jsval \<Rightarrow> string \<Rightarrow> exn + jsval" where
  "js_get JUndefined k = Inl TypeError"
| "js_get JNull k = Inl TypeError"
| "js_get (JObj ps) k = Inr (obj_get ps k)"
| "js_get (JArr xs) k =
     Inr (if k = ''length'' then JNum (Num (int (length xs))) else obj_get (index_entries xs) k)"
| "js_get (JStr s) k =
     Inr (if k = ''length'' then JNum (Num (int (length s))) else obj_get (own_entries (JStr s)) k)"
| "js_get (JBool b) k = Inr JUndefined"
| "js_get (JNum n) k = Inr JUndefined"

text \<open>\<open>v?.k\<close>: \<open>undefined\<close> on \<open>undefined\<close> and \<open>null\<close>, the property otherwise.\<close>

definition js_opt_get :: "jsval \<Rightarrow> string \<Rightarrow> jsval" where
  "js_opt_get v k = (case js_get v k of Inl e \<Rightarrow> JUndefined | Inr x \<Rightarrow> x)"

text \<open>\<open>obj.k = v\<close> on an object, for the names the program writes (none is
  \<open>__proto__\<close>), and the definition of a property by an object literal or a spread:
  an existing property keeps its place, a new one goes last.\<close>

definition obj_set :: "jsobj \<Rightarrow> string \<Rightarrow> jsval \<Rightarrow> jsobj" where
  "obj_set ps k v = AList.update k v ps"

text \<open>\<open>obj[k] = v\<close> on a plain object with a key taken from a payload: the key
  \<open>__proto__\<close> reaches the setter of \<open>Object.prototype\<close>, which creates no own
  property; every other key is set as above.\<close>

definition obj_assign :: "jsobj \<Rightarrow> string \<Rightarrow> jsval \<Rightarrow> jsobj" where
  "obj_assign ps k v = (if k = ''__proto__'' then ps else obj_set ps k v)"

text \<open>\<open>{...base, ...v}\<close>: the own properties of \<open>v\<close> are assigned in order onto the
  properties written before the spread.\<close>

definition spread :: "jsobj \<Rightarrow> jsval \<Rightarrow> jsobj" where
  "spread base v = foldl (\<lambda>acc kv. obj_set acc (fst kv) (snd kv)) base (own_entries v)"

section \<open>Module initialisation: the conversation cache TTL\<close>

text \<open>
  Bot.mjs, lines 8-11 and 173-175. The argument is the environment variable
  \<open>HUBOT_SLACK_CONVERSATION_CACHE_TTL_MS\<close>: \<open>None\<close> when unset. An empty string
  is falsy, so it takes the default as an unset variable does.
  \<^verbatim>\<open>
  static CONVERSATION_CACHE_TTL_MS =
    process.env.HUBOT_SLACK_CONVERSATION_CACHE_TTL_MS
    ? parseInt(process.env.HUBOT_SLACK_CONVERSATION_CACHE_TTL_MS, 10)
    : (5 * 60 * 1000);
  ...
  if (SlackClient.CONVERSATION_CACHE_TTL_MS === NaN) {
    throw new Error('HUBOT_SLACK_CONVERSATION_CACHE_TTL_MS must be a number. It could not be parsed.');
  }
  \<close>
\<close>

definition CONVERSATION_CACHE_TTL_MS :: "string option \<Rightarrow> jsnum" where
  "CONVERSATION_CACHE_TTL_MS env =
     (case env of
        None \<Rightarrow> Num (5 * 60 * 1000)
      | Some s \<Rightarrow> if s \<noteq> [] then parseInt10 s else Num (5 * 60 * 1000))"

definition module_init :: "string option \<Rightarrow> exn + jsnum" where
  "module_init env =
     (if num_strict_eq (CONVERSATION_CACHE_TTL_MS env) NaN
      then Inl (Error ''HUBOT_SLACK_CONVERSATION_CACHE_TTL_MS must be a number. It could not be parsed.'')
      else Inr (CONVERSATION_CACHE_TTL_MS env))"

section \<open>The adapter's state and its collaborators\<close>

text \<open>
  The REST client (\<open>this.web\<close>), the logger, the bot runtime (\<open>this.robot\<close>) and the
  socket are outside the program. What the program does to them is recorded, in order,
  as a list of effects; what they answer is a parameter of each operation.
  A log entry records its level and the literal text of the message, each
  interpolation \<open>${...}\<close> left out.
\<close>

datatype log_level = LDebug | LInfo | LError

datatype rest_call =
    ChatPostMessage jsobj
  | UsersList jsnum "jsval option"
  | UsersInfo jsval
  | ConversationsInfo string

datatype callback_arg = CbError exn | CbResults "jsval list"

text \<open>The messages handed to the bot runtime, each by the arguments it is built from
  and the \<open>ts\<close> assigned to it:
  \<open>EnterMessage user ts\<close>, \<open>LeaveMessage user ts\<close>,
  \<open>ReactionMessage type user reaction item_user item event_ts\<close>,
  \<open>FileSharedMessage user file_id event_ts\<close>, and the text message that
  \<open>SlackTextMessage.makeSlackTextMessage\<close> returns.\<close>

datatype hubot_message =
    EnterMessage jsobj jsval
  | LeaveMessage jsval jsval
  | ReactionMessage jsval jsobj jsval jsobj jsval jsval
  | FileSharedMessage jsobj jsval jsval
  | SlackTextMessage jsobj jsval jsval

datatype effect =
    Log log_level string
  | Rest rest_call
  | Callback callback_arg
  | Ack
  | Receive hubot_message

text \<open>A conversation cache entry: \<open>{channel: r.channel, updated: Date.now()}\<close>.\<close>

record cache_entry =
  channel :: jsval
  updated :: int

text \<open>\<open>channelData\<close> is \<open>this.channelData\<close>, \<open>brain_users\<close> is
  \<open>this.robot.brain.data.users\<close> (user ID to user object).\<close>

record world =
  channelData :: "string \<rightharpoonup> cache_entry"
  brain_users :: "string \<rightharpoonup> jsobj"
  effects :: "effect list"

definition emit :: "effect \<Rightarrow> world \<Rightarrow> world" where
  "emit e w = w\<lparr>effects := effects w @ [e]\<rparr>"

definition rest_calls :: "effect list \<Rightarrow> rest_call list" where
  "rest_calls es = concat (map (\<lambda>e. case e of Rest r \<Rightarrow> [r] | _ \<Rightarrow> []) es)"

definition received :: "effect list \<Rightarrow> hubot_message list" where
  "received es = concat (map (\<lambda>e. case e of Receive m \<Rightarrow> [m] | _ \<Rightarrow> []) es)"

section \<open>SlackClient.send\<close>

text \<open>
  Bot.mjs, lines 73-94. \<open>postMessage\<close> is \<open>this.web.chat.postMessage\<close>: it answers
  a payload with a response or rejects. The envelope is an object.
  \<^verbatim>\<open>
  async send(envelope, message) {
    const room = envelope.room || envelope.id;
    const thread_ts = envelope.message?.thread_ts
    if (room == null) {
      this.robot.logger.error("Cannot send message without a valid room. ...");
      return;
    }
    this.robot.logger.debug(`SlackClient#send() room: ${room}, message: ${message}`);
    const messageOptions = {
      channel: room,
      text: typeof message === "string" ? message : message.text,
      thread_ts, // Include thread_ts if it's defined
      ...message, // Spread other properties from the message if it's an object
    };
    try {
      const result = await this.web.chat.postMessage(messageOptions);
      this.robot.logger.debug(`Successfully sent message to ${room}`);
    } catch (e) {
      this.robot.logger.error(e, `SlackClient#send() error: ${e.message}`);
    }
  }
  \<close>
\<close>

definition send_room :: "jsobj \<Rightarrow> jsval" where
  "send_room envelope =
     (if truthy (obj_get envelope ''room'') then obj_get envelope ''room''
      else obj_get envelope ''id'')"

definition send_text :: "jsval \<Rightarrow> exn + jsval" where
  "send_text message = (case message of JStr s \<Rightarrow> Inr message | _ \<Rightarrow> js_get message ''text'')"

definition messageOptions :: "jsobj \<Rightarrow> jsval \<Rightarrow> jsval \<Rightarrow> jsobj" where
  "messageOptions envelope txt message =
     spread [(''channel'', send_room envelope),
             (''text'', txt),
             (''thread_ts'', js_opt_get (obj_get envelope ''message'') ''thread_ts'')]
            message"

definition send :: "(jsobj \<Rightarrow> exn + jsval) \<Rightarrow> world \<Rightarrow> jsobj \<Rightarrow> jsval \<Rightarrow> (exn + jsval) \<times> world" where
  "send postMessage w envelope message =
     (if nullish (send_room envelope) then
        (Inr JUndefined,
         emit (Log LError ''Cannot send message without a valid room. Envelopes should contain a room property set to a Slack conversation ID.'') w)
      else
        (let w1 = emit (Log LDebug ''SlackClient#send() room: , message: '') w in
         case send_text message of
           Inl e \<Rightarrow> (Inl e, w1)
         | Inr txt \<Rightarrow>
             (let w2 = emit (Rest (ChatPostMessage (messageOptions envelope txt message))) w1 in
              case postMessage (messageOptions envelope txt message) of
                Inr result \<Rightarrow> (Inr JUndefined, emit (Log LDebug ''Successfully sent message to '') w2)
              | Inl e \<Rightarrow> (Inr JUndefined, emit (Log LError ''SlackClient#send() error: '') w2))))"

section \<open>SlackClient.loadUsers\<close>

text \<open>
  Bot.mjs, lines 95-116. \<open>users_list limit cursor\<close> is what
  \<open>this.web.users.list\<close> hands to its callback for a request with that limit and
  cursor (\<open>None\<close>: the first request, which has no cursor): an error or the results.
  \<^verbatim>\<open>
  loadUsers(callback) {
    const combinedResults = { members: [] };
    var pageLoaded = (error, results) => {
      if (error) {
        return callback(error);
      }
      for (var member of results.members) {
        combinedResults.members.push(member);
      }
      if(results?.response_metadata?.next_cursor) {
        return this.web.users.list({
          limit: this.apiPageSize,
          cursor: results.response_metadata.next_cursor
        }, pageLoaded);
      } else {
        return callback(null, combinedResults);
      }
    };
    return this.web.users.list({ limit: this.apiPageSize }, pageLoaded);
  }
  \<close>
  The chain of pages need not end, so \<open>pageLoaded\<close> is a partial function: \<open>None\<close>
  when the requests go on for ever. Its result is the exception that escapes from
  \<open>pageLoaded\<close> into the REST client, if any (then \<open>callback\<close> is never invoked),
  and the state.
\<close>

text \<open>\<open>for (var member of v)\<close>: arrays and strings are iterable.\<close>

fun js_iterate :: "jsval \<Rightarrow> exn + jsval list" where
  "js_iterate (JArr xs) = Inr xs"
| "js_iterate (JStr s) = Inr (map (\<lambda>c. JStr [c]) s)"
| "js_iterate _ = Inl TypeError"

definition page_members :: "jsval \<Rightarrow> exn + jsval list" where
  "page_members results =
     (case js_get results ''members'' of Inl e \<Rightarrow> Inl e | Inr ms \<Rightarrow> js_iterate ms)"

definition page_cursor :: "jsval \<Rightarrow> jsval" where
  "page_cursor results = js_opt_get (js_opt_get results ''response_metadata'') ''next_cursor''"

partial_function (option) pageLoaded ::
  "(jsnum \<Rightarrow> jsval option \<Rightarrow> exn + jsval) \<Rightarrow> jsnum \<Rightarrow> jsval list \<Rightarrow> world \<Rightarrow> exn + jsval
     \<Rightarrow> (exn option \<times> world) option"
where
  "pageLoaded users_list apiPageSize combinedResults w answer =
     (case answer of
        Inl error \<Rightarrow> Some (None, emit (Callback (CbError error)) w)
      | Inr results \<Rightarrow>
          (case page_members results of
             Inl e \<Rightarrow> Some (Some e, w)
           | Inr ms \<Rightarrow>
               if truthy (page_cursor results) then
                 pageLoaded users_list apiPageSize (combinedResults @ ms)
                   (emit (Rest (UsersList apiPageSize (Some (page_cursor results)))) w)
                   (users_list apiPageSize (Some (page_cursor results)))
               else Some (None, emit (Callback (CbResults (combinedResults @ ms))) w)))"

declare pageLoaded.simps [code]

definition loadUsers ::
  "(jsnum \<Rightarrow> jsval option \<Rightarrow> exn + jsval) \<Rightarrow> jsnum \<Rightarrow> world \<Rightarrow> (exn option \<times> world) option" where
  "loadUsers users_list apiPageSize w =
     pageLoaded users_list apiPageSize []
       (emit (Rest (UsersList apiPageSize None)) w) (users_list apiPageSize None)"

section \<open>SlackClient.fetchConversation\<close>

text \<open>
  Bot.mjs, lines 124-137. \<open>ttl\<close> is \<open>SlackClient.CONVERSATION_CACHE_TTL_MS\<close>,
  \<open>info\<close> is \<open>this.web.conversations.info\<close>, \<open>t0\<close> is what \<open>Date.now()\<close>
  returns on entry and \<open>t1\<close> what it returns after the \<open>await\<close>, when the entry is
  stored. The result is the value the returned promise resolves to, or the rejection.
  \<^verbatim>\<open>
  async fetchConversation(conversationId) {
    const expiration = Date.now() - SlackClient.CONVERSATION_CACHE_TTL_MS;
    if (((this.channelData[conversationId] != null ? this.channelData[conversationId].channel : undefined) != null) &&
      (expiration < (this.channelData[conversationId] != null ? this.channelData[conversationId].updated : undefined)))
      { return Promise.resolve(this.channelData[conversationId].channel); }
    if (this.channelData[conversationId] != null) { delete this.channelData[conversationId]; }
    const r = await this.web.conversations.info({channel: conversationId})
    if (r.channel != null) {
      this.channelData[conversationId] = {
        channel: r.channel,
        updated: Date.now()
      };
    }
    return r.channel;
  }
  \<close>
  An absent entry reads as \<open>undefined\<close>, and \<open>expiration < undefined\<close> is false, as a
  comparison with \<open>NaN\<close> is.
\<close>

definition cached_channel :: "world \<Rightarrow> string \<Rightarrow> jsval" where
  "cached_channel w conversationId =
     (case channelData w conversationId of None \<Rightarrow> JUndefined | Some e \<Rightarrow> channel e)"

definition cached_updated :: "world \<Rightarrow> string \<Rightarrow> jsnum" where
  "cached_updated w conversationId =
     (case channelData w conversationId of None \<Rightarrow> NaN | Some e \<Rightarrow> Num (updated e))"

definition cache_hit :: "jsnum \<Rightarrow> int \<Rightarrow> world \<Rightarrow> string \<Rightarrow> bool" where
  "cache_hit ttl t0 w conversationId =
     (\<not> nullish (cached_channel w conversationId)
      \<and> num_lt (num_sub (Num t0) ttl) (cached_updated w conversationId))"

definition fetchConversation ::
  "jsnum \<Rightarrow> (string \<Rightarrow> exn + jsval) \<Rightarrow> int \<Rightarrow> int \<Rightarrow> world \<Rightarrow> string \<Rightarrow> (exn + jsval) \<times> world" where
  "fetchConversation ttl info t0 t1 w conversationId =
     (if cache_hit ttl t0 w conversationId then (Inr (cached_channel w conversationId), w)
      else
        (let w1 = (if channelData w conversationId \<noteq> None
                   then w\<lparr>channelData := (channelData w)(conversationId := None)\<rparr> else w);
             w2 = emit (Rest (ConversationsInfo conversationId)) w1
         in case info conversationId of
              Inl e \<Rightarrow> (Inl e, w2)
            | Inr r \<Rightarrow>
                (case js_get r ''channel'' of
                   Inl e \<Rightarrow> (Inl e, w2)
                 | Inr ch \<Rightarrow>
                     if \<not> nullish ch
                     then (Inr ch, w2\<lparr>channelData :=
                             (channelData w2)(conversationId \<mapsto> \<lparr>channel = ch, updated = t1\<rparr>)\<rparr>)
                     else (Inr ch, w2))))"

section \<open>SlackClient.updateUserInBrain\<close>

text \<open>
  Bot.mjs, lines 138-162. \<open>userForId\<close> is \<open>this.robot.brain.userForId\<close> of the bot
  runtime: given the user store, an ID and the properties for a new user, it returns
  the user object and the store it leaves. \<open>buildNewUser\<close> is the part of the method
  before the \<open>delete\<close> (lines 140-159): it returns \<open>user.id\<close> and \<open>newUser\<close>.
  The brain's store is a map from user IDs to user objects. When \<open>user.id\<close> is the
  name of a member of \<open>Object.prototype\<close> and the brain has no such user, the test
  \<open>user.id in users\<close> holds and the loop runs over the inherited member, which has no
  enumerable property: nothing is copied, as when the test fails.
  \<^verbatim>\<open>
  updateUserInBrain(event_or_user) {
    let key, value;
    const user = event_or_user.type === 'user_change' ? event_or_user.user : event_or_user;
    const newUser = {
      id: user.id,
      name: user.name,
      real_name: user.real_name,
      slack: {}
    };
    if ((user.profile != null ? user.profile.email : undefined) != null) { newUser.email_address = user.profile.email; }
    for (key in user) {
      value = user[key];
      newUser.slack[key] = value;
    }
    if (user.id in this.robot.brain.data.users) {
      for (key in this.robot.brain.data.users[user.id]) {
        value = this.robot.brain.data.users[user.id][key];
        if (!(key in newUser)) {
          newUser[key] = value;
        }
      }
    }
    delete this.robot.brain.data.users[user.id];
    return this.robot.brain.userForId(user.id, newUser);
  }
  \<close>
\<close>

definition and_then :: "exn + 'a \<Rightarrow> ('a \<Rightarrow> exn + 'b) \<Rightarrow> exn + 'b" where
  "and_then r f = (case r of Inl e \<Rightarrow> Inl e | Inr x \<Rightarrow> f x)"

definition update_user :: "jsval \<Rightarrow> exn + jsval" where
  "update_user event_or_user =
     and_then (js_get event_or_user ''type'') (\<lambda>ty.
       if js_strict_eq ty (JStr ''user_change'') then js_get event_or_user ''user''
       else Inr event_or_user)"

definition profile_email :: "jsval \<Rightarrow> jsval" where
  "profile_email user =
     (if \<not> nullish (js_opt_get user ''profile'')
      then js_opt_get (js_opt_get user ''profile'') ''email'' else JUndefined)"

text \<open>Lines 153-158: the loop over the old record. \<open>key in newUser\<close> also holds for
  the names \<open>newUser\<close> inherits from \<open>Object.prototype\<close>.\<close>

definition copy_missing :: "jsobj \<Rightarrow> jsobj \<Rightarrow> jsobj" where
  "copy_missing newUser old =
     foldl (\<lambda>acc kv. if \<not> obj_in acc (fst kv) then obj_assign acc (fst kv) (snd kv) else acc)
       newUser old"

text \<open>Lines 148-151: the loop \<open>newUser.slack[key] = value\<close> over the properties of
  \<open>user\<close>, starting from \<open>{}\<close>.\<close>

definition copy_to_slack :: "jsval \<Rightarrow> jsobj" where
  "copy_to_slack user = foldl (\<lambda>acc kv. obj_assign acc (fst kv) (snd kv)) [] (own_entries user)"

text \<open>Lines 141-151: the object literal, the email address, and the loop that copies
  the properties of \<open>user\<close> into \<open>newUser.slack\<close>.\<close>

definition newUser_of :: "jsval \<Rightarrow> jsval \<Rightarrow> jsval \<Rightarrow> jsval \<Rightarrow> jsobj" where
  "newUser_of user uid uname real_name =
     (let newUser0 = [(''id'', uid), (''name'', uname), (''real_name'', real_name),
                      (''slack'', JObj [])];
          newUser1 = (if \<not> nullish (profile_email user)
                      then obj_set newUser0 ''email_address'' (profile_email user)
                      else newUser0)
      in obj_set newUser1 ''slack'' (JObj (copy_to_slack user)))"

definition buildNewUser :: "(string \<rightharpoonup> jsobj) \<Rightarrow> jsval \<Rightarrow> exn + (jsval \<times> jsobj)" where
  "buildNewUser users event_or_user =
     and_then (update_user event_or_user) (\<lambda>user.
     and_then (js_get user ''id'') (\<lambda>uid.
     and_then (js_get user ''name'') (\<lambda>uname.
     and_then (js_get user ''real_name'') (\<lambda>real_name.
       Inr (uid,
            case users (to_string uid) of
              None \<Rightarrow> newUser_of user uid uname real_name
            | Some old \<Rightarrow> copy_missing (newUser_of user uid uname real_name) old)))))"

definition updateUserInBrain ::
  "((string \<rightharpoonup> jsobj) \<Rightarrow> jsval \<Rightarrow> jsval \<Rightarrow> jsobj \<times> (string \<rightharpoonup> jsobj))
     \<Rightarrow> world \<Rightarrow> jsval \<Rightarrow> (exn + jsval) \<times> world" where
  "updateUserInBrain userForId w event_or_user =
     (case buildNewUser (brain_users w) event_or_user of
        Inl e \<Rightarrow> (Inl e, w)
      | Inr (uid, newUser) \<Rightarrow>
          (case userForId ((brain_users w)(to_string uid := None)) uid (JObj newUser) of
             (u, users') \<Rightarrow> (Inr (JObj u), w\<lparr>brain_users := users'\<rparr>)))"

section \<open>SlackBot: text preprocessing\<close>

text \<open>\<open>s.includes(p)\<close> on strings.\<close>

fun str_includes :: "string \<Rightarrow> string \<Rightarrow> bool" where
  "str_includes [] p = (p = [])"
| "str_includes (c # cs) p = (prefix p (c # cs) \<or> str_includes cs p)"

text \<open>
  \<open>s.replace(p, r)\<close> with a string pattern replaces the first occurrence of \<open>p\<close>.
  In the replacement \<open>$$\<close> stands for \<open>$\<close>, \<open>$&\<close> for the match, \<open>$`\<close> for the
  text before the match and \<open>$'\<close> for the text after it; every other character
  stands for itself (a string pattern has no capture groups).
\<close>

fun get_substitution :: "string \<Rightarrow> string \<Rightarrow> string \<Rightarrow> string \<Rightarrow> string" where
  "get_substitution matched pre post [] = []"
| "get_substitution matched pre post [c] = [c]"
| "get_substitution matched pre post (c # d # r) =
     (if c = CHR ''$'' \<and> d = CHR ''$'' then CHR ''$'' # get_substitution matched pre post r
      else if c = CHR ''$'' \<and> d = CHR ''&'' then matched @ get_substitution matched pre post r
      else if c = CHR ''$'' \<and> d = CHR 0x60 then pre @ get_substitution matched pre post r
      else if c = CHR ''$'' \<and> d = CHR 0x27 then post @ get_substitution matched pre post r
      else c # get_substitution matched pre post (d # r))"

fun replace_from :: "string \<Rightarrow> string \<Rightarrow> string \<Rightarrow> string \<Rightarrow> string" where
  "replace_from pre [] p r = (if p = [] then pre @ get_substitution [] pre [] r else pre)"
| "replace_from pre (c # cs) p r =
     (if prefix p (c # cs)
      then pre @ get_substitution p pre (drop (length p) (c # cs)) r @ drop (length p) (c # cs)
      else replace_from (pre @ [c]) cs p r)"

definition str_replace :: "string \<Rightarrow> string \<Rightarrow> string \<Rightarrow> string" where
  "str_replace s p r = replace_from [] s p r"

text \<open>
  \<open>text.includes(x)\<close> and \<open>text.replace(p, r)\<close> on any value: strings have both
  methods, arrays have \<open>includes\<close> (an element equal to \<open>x\<close>, where \<open>NaN\<close> equals
  itself) and no \<open>replace\<close>; on every other value the call is a \<open>TypeError\<close>
  (not a function).
\<close>

definition same_value_zero :: "jsval \<Rightarrow> jsval \<Rightarrow> bool" where
  "same_value_zero x y = (js_strict_eq x y \<or> (x = JNum NaN \<and> y = JNum NaN))"

fun js_includes :: "jsval \<Rightarrow> jsval \<Rightarrow> exn + bool" where
  "js_includes (JStr s) x = Inr (str_includes s (to_string x))"
| "js_includes (JArr xs) x = Inr (list_ex (\<lambda>y. same_value_zero y x) xs)"
| "js_includes _ x = Inl TypeError"

fun js_replace :: "jsval \<Rightarrow> string \<Rightarrow> string \<Rightarrow> exn + jsval" where
  "js_replace (JStr s) p r = Inr (JStr (str_replace s p r))"
| "js_replace _ p r = Inl TypeError"

text \<open>\<open>v == 'literal'\<close>: a string equal to the literal, or an array or object whose
  string conversion is the literal. (A number or boolean is compared with the
  literal read as a number; the only literal the program compares with is \<open>'im'\<close>,
  which reads as \<open>NaN\<close>.)\<close>

fun js_loose_eq_str :: "jsval \<Rightarrow> string \<Rightarrow> bool" where
  "js_loose_eq_str (JStr t) s = (t = s)"
| "js_loose_eq_str (JArr xs) s = (to_string (JArr xs) = s)"
| "js_loose_eq_str (JObj ps) s = (to_string (JObj ps) = s)"
| "js_loose_eq_str _ s = False"

text \<open>
  The bot: \<open>self\<close> is \<open>this.self\<close> (the answer of \<open>auth.test\<close>; \<open>undefined\<close>
  before authentication), \<open>robot_alias\<close> and \<open>robot_name\<close> are \<open>this.robot.alias\<close>
  and \<open>this.robot.name\<close>. The other fields are the collaborators:
  \<open>web_users_info\<close> is \<open>this.client.web.users.info\<close>, \<open>brain_userForId\<close> is
  \<open>this.robot.brain.userForId\<close>, \<open>makeSlackTextMessage\<close> is
  \<open>SlackTextMessage.makeSlackTextMessage\<close> of Message.mjs (called with \<open>from\<close>, the
  text, the event, the channel, the robot's name and its alias; it is handed the
  client, so it may change the state), \<open>robot_receive\<close> is \<open>this.receive\<close>, which may throw.
\<close>

record slackbot =
  self :: jsval
  robot_alias :: jsval
  robot_name :: jsval
  web_users_info :: "jsval \<Rightarrow> exn + jsval"
  brain_userForId :: "(string \<rightharpoonup> jsobj) \<Rightarrow> jsval \<Rightarrow> jsval \<Rightarrow> jsobj \<times> (string \<rightharpoonup> jsobj)"
  makeSlackTextMessage ::
    "jsobj \<Rightarrow> jsval \<Rightarrow> jsobj \<Rightarrow> jsval \<Rightarrow> jsval \<Rightarrow> jsval \<Rightarrow> world \<Rightarrow> (exn + hubot_message) \<times> world"
  robot_receive :: "hubot_message \<Rightarrow> exn option"

text \<open>
  Bot.mjs, lines 401-420.
  \<^verbatim>\<open>
  replaceBotIdWithName(event) {
      const botId = this.self.user_id;
      const botName = this.self.user;
      const text = event.text ?? event.message?.text ?? '';
      if(text.includes(`<@${botId}>`)) {
        if(this.robot.alias) {
          return text.replace(`<@${botId}>`, `${this.robot.alias}`);
        } else {
          return text.replace(`<@${botId}>`, `@${botName}`);
        }
      }
      return text;
  }
  addBotIdToMessage(event) {
    let text = event.text ?? event.message?.text ?? '';
    if (text && event?.channel_type == 'im' && !text.includes(this.self.user_id)) {
      text = `<@${this.self.user_id}> ${text}`;
    }
    return text;
  }
  \<close>
\<close>

definition event_text :: "jsval \<Rightarrow> exn + jsval" where
  "event_text ev =
     and_then (js_get ev ''text'') (\<lambda>t.
       Inr (nullish_or (nullish_or t (js_opt_get (js_opt_get ev ''message'') ''text'')) (JStr [])))"

definition mention :: "jsval \<Rightarrow> string" where
  "mention botId = ''<@'' @ to_string botId @ ''>''"

definition replaceBotIdWithName :: "slackbot \<Rightarrow> jsval \<Rightarrow> exn + jsval" where
  "replaceBotIdWithName sb ev =
     and_then (js_get (self sb) ''user_id'') (\<lambda>botId.
     and_then (js_get (self sb) ''user'') (\<lambda>botName.
     and_then (event_text ev) (\<lambda>text.
     and_then (js_includes text (JStr (mention botId))) (\<lambda>found.
       if found then
         (if truthy (robot_alias sb)
          then js_replace text (mention botId) (to_string (robot_alias sb))
          else js_replace text (mention botId) (''@'' @ to_string botName))
       else Inr text))))"

definition addBotIdToMessage :: "slackbot \<Rightarrow> jsval \<Rightarrow> exn + jsval" where
  "addBotIdToMessage sb ev =
     and_then (event_text ev) (\<lambda>text.
       if truthy text \<and> js_loose_eq_str (js_opt_get ev ''channel_type'') ''im'' then
         and_then (js_get (self sb) ''user_id'') (\<lambda>botId.
         and_then (js_includes text botId) (\<lambda>found.
           if \<not> found then Inr (JStr (mention botId @ '' '' @ to_string text))
           else Inr text))
       else Inr text)"

section \<open>SlackBot.eventHandler\<close>

text \<open>
  Bot.mjs, lines 438-537. The argument is what the socket hands over for one event:
  \<open>msg_ack\<close> is \<open>message.ack\<close> (\<open>None\<close>: no such function; \<open>Some None\<close>: it
  returns; \<open>Some (Some e)\<close>: it throws \<open>e\<close>), \<open>msg_body\<close>, \<open>msg_event\<close> and
  \<open>msg_ts\<close> are \<open>message.body\<close>, \<open>message.event\<close> and \<open>message.ts\<close>. The method
  reads the event both as \<open>message.body.event\<close> and as \<open>message.event\<close>; the model
  keeps the two apart as the source does.
\<close>

record sm_message =
  msg_ack :: "exn option option"
  msg_body :: jsval
  msg_event :: jsval
  msg_ts :: jsval

definition exn_message :: "exn \<Rightarrow> string" where
  "exn_message e = (case e of TypeError \<Rightarrow> ''TypeError'' | Error s \<Rightarrow> s)"

text \<open>
  Lines 440-442.
  \<^verbatim>\<open>
    if (message?.ack) {
      await message?.ack();
    }
  \<close>
\<close>

definition run_ack :: "sm_message \<Rightarrow> world \<Rightarrow> exn option \<times> world" where
  "run_ack m w = (case msg_ack m of None \<Rightarrow> (None, w) | Some r \<Rightarrow> (r, emit Ack w))"

text \<open>
  Lines 452-460: the acting user, from the brain or fetched and stored.
  \<^verbatim>\<open>
    const userFromBrain = this.robot.brain.users()[user];
    if (!userFromBrain) {
      const userResponse = await this.client.web.users.info({
        user
      })
      this.robot.brain.userForId(user, userResponse.user);
    }

    const from = this.robot.brain.users()[user];
  \<close>
\<close>

definition resolve_user :: "slackbot \<Rightarrow> world \<Rightarrow> jsval \<Rightarrow> (exn + jsobj option) \<times> world" where
  "resolve_user sb w user =
     (case brain_users w (to_string user) of
        Some userFromBrain \<Rightarrow> (Inr (Some userFromBrain), w)
      | None \<Rightarrow>
          (let w1 = emit (Rest (UsersInfo user)) w in
           case web_users_info sb user of
             Inl e \<Rightarrow> (Inl e, w1)
           | Inr userResponse \<Rightarrow>
               (case js_get userResponse ''user'' of
                  Inl e \<Rightarrow> (Inl e, w1)
                | Inr u \<Rightarrow>
                    (case brain_userForId sb (brain_users w1) user u of
                       (created, users') \<Rightarrow>
                         (Inr (users' (to_string user)), w1\<lparr>brain_users := users'\<rparr>)))))"

text \<open>\<open>from?.id\<close>.\<close>

definition from_id :: "jsobj option \<Rightarrow> jsval" where
  "from_id from = (case from of None \<Rightarrow> JUndefined | Some f \<Rightarrow> obj_get f ''id'')"

text \<open>
  Lines 482-483. \<open>from\<close> is the object held by the brain, so the brain sees the
  assignments.
  \<^verbatim>\<open>
    from.room = channel ?? '';
    from.name = from?.name ?? null;
  \<close>
\<close>

definition set_room_and_name :: "jsobj \<Rightarrow> jsval \<Rightarrow> jsobj" where
  "set_room_and_name f chan =
     (let f1 = obj_set f ''room'' (nullish_or chan (JStr []))
      in obj_set f1 ''name'' (nullish_or (obj_get f1 ''name'') JNull))"

text \<open>
  Lines 486-487: the two preprocessing steps, the second on the event that holds the
  text of the first. The result is the event as classification sees it.
  \<^verbatim>\<open>
    message.body.event.text = this.addBotIdToMessage(message.body.event);
    message.body.event.text = this.replaceBotIdWithName(message.body.event);
  \<close>
\<close>

definition preprocess_text :: "slackbot \<Rightarrow> jsobj \<Rightarrow> exn + jsobj" where
  "preprocess_text sb ev =
     and_then (addBotIdToMessage sb (JObj ev)) (\<lambda>text1.
     and_then (replaceBotIdWithName sb (JObj (obj_set ev ''text'' text1))) (\<lambda>text2.
       Inr (obj_set (obj_set ev ''text'' text1) ''text'' text2)))"

definition receive_msg :: "slackbot \<Rightarrow> hubot_message \<Rightarrow> world \<Rightarrow> exn option \<times> world" where
  "receive_msg sb msg w = (robot_receive sb msg, emit (Receive msg) w)"

text \<open>The outer \<open>catch (e) { this.robot.logger.error(e); }\<close> of lines 534-536.\<close>

definition caught :: "exn option \<times> world \<Rightarrow> world" where
  "caught r = (case r of (None, w) \<Rightarrow> w | (Some e, w) \<Rightarrow> emit (Log LError (exn_message e)) w)"

text \<open>
  Lines 506-519, the body of the reaction case.
  \<^verbatim>\<open>
          from.room = message.body.event.item.type === "message" ? message.body.event.item.channel : "";
          const item_user = (message.body.event.item_user != null) ? this.robot.brain.userForId(message.body.event.item_user.id, message.body.event.item_user) : {};
          this.robot.logger.debug(`Received reaction message from: ${from.id}, reaction: ${message.body.event.reaction}, item type: ${message.body.event.item.type}`);
          await this.receive(new ReactionMessage(message.body.event.type, from, message.body.event.reaction, item_user, message.body.event.item, message.body.event.event_ts));
  \<close>
\<close>

definition reaction_case :: "slackbot \<Rightarrow> jsval \<Rightarrow> jsobj \<Rightarrow> jsobj \<Rightarrow> world \<Rightarrow> exn option \<times> world" where
  "reaction_case sb user from ev w =
     (case js_get (obj_get ev ''item'') ''type'' of
        Inl e \<Rightarrow> (Some e, w)
      | Inr item_type \<Rightarrow>
          (let from1 = obj_set from ''room''
                 (if js_strict_eq item_type (JStr ''message'')
                  then js_opt_get (obj_get ev ''item'') ''channel'' else JStr []);
               w1 = w\<lparr>brain_users := (brain_users w)(to_string user \<mapsto> from1)\<rparr>
           in case (if \<not> nullish (obj_get ev ''item_user'')
                    then (case brain_userForId sb (brain_users w1)
                                 (js_opt_get (obj_get ev ''item_user'') ''id'') (obj_get ev ''item_user'') of
                            (item_user, users') \<Rightarrow> (item_user, w1\<lparr>brain_users := users'\<rparr>))
                    else ([], w1)) of
                (item_user, w2) \<Rightarrow>
                  receive_msg sb
                    (ReactionMessage (obj_get ev ''type'') from1 (obj_get ev ''reaction'') item_user
                       (obj_get ev ''item'') (obj_get ev ''event_ts''))
                    (emit (Log LDebug ''Received reaction message from: , reaction: , item type: '') w2)))"

text \<open>
  Lines 524-532, the default case: its own \<open>try\<close> logs what
  \<open>makeSlackTextMessage\<close> or \<open>receive\<close> throws.
  \<^verbatim>\<open>
          this.robot.logger.debug(`Received generic message: ${message.event.type}`);
          try {
            const msg = await SlackTextMessage.makeSlackTextMessage(from, null, message?.body?.event.text, message?.body?.event, channel, this.robot.name, this.robot.alias, this.client)
            await this.receive(msg);
          } catch (error) {
            this.robot.logger.error(error, `Dropping message due to error ${error.message}`);
          }
  \<close>
\<close>

definition default_case :: "slackbot \<Rightarrow> jsval \<Rightarrow> jsobj \<Rightarrow> jsobj \<Rightarrow> world \<Rightarrow> exn option \<times> world" where
  "default_case sb chan from ev w =
     (case makeSlackTextMessage sb from (obj_get ev ''text'') ev chan (robot_name sb) (robot_alias sb)
             (emit (Log LDebug ''Received generic message: '') w) of
        (Inl error, w1) \<Rightarrow> (None, emit (Log LError ''Dropping message due to error '') w1)
      | (Inr msg, w1) \<Rightarrow>
          (case receive_msg sb msg w1 of
             (None, w2) \<Rightarrow> (None, w2)
           | (Some error, w2) \<Rightarrow> (None, emit (Log LError ''Dropping message due to error '') w2)))"

text \<open>
  Lines 491-536, the classification: the \<open>switch\<close> on \<open>message.event.type\<close> inside
  its \<open>try\<close>. \<open>user\<close> and \<open>chan\<close> are the fields \<open>user\<close> and \<open>channel\<close> taken from
  \<open>message.event\<close>, \<open>from\<close> is the acting user and \<open>ev\<close> is
  \<open>message.body.event\<close> after preprocessing.
  \<^verbatim>\<open>
        case "member_joined_channel":
          this.robot.logger.debug(`Received enter message for user: ${from.id}, joining: ${channel}`);
          msg = new EnterMessage(from);
          msg.ts = message.event.ts;
          await this.receive(msg);
          break;
        case "member_left_channel":
          this.robot.logger.debug(`Received leave message for user: ${from.id}, joining: ${channel}`);
          msg = new LeaveMessage(user);
          msg.ts = message.ts;
          await this.receive(msg);
          break;
        ...
        case "file_shared":
          this.robot.logger.debug(`Received file_shared message from: ${message.body.event.user_id}, file_id: ${message.body.event.file_id}`);
          await this.receive(new FileSharedMessage(from, message.body.event.file_id, message.body.event.event_ts));
          break;
  \<close>
\<close>

definition classify ::
  "slackbot \<Rightarrow> sm_message \<Rightarrow> jsval \<Rightarrow> jsval \<Rightarrow> jsobj \<Rightarrow> jsobj \<Rightarrow> world \<Rightarrow> exn option \<times> world" where
  "classify sb m user chan from ev w =
     (case js_get (msg_event m) ''type'' of
        Inl e \<Rightarrow> (Some e, w)
      | Inr ty \<Rightarrow>
          if js_strict_eq ty (JStr ''member_joined_channel'') then
            (case js_get (msg_event m) ''ts'' of
               Inl e \<Rightarrow> (Some e, emit (Log LDebug ''Received enter message for user: , joining: '') w)
             | Inr event_ts \<Rightarrow>
                 receive_msg sb (EnterMessage from event_ts)
                   (emit (Log LDebug ''Received enter message for user: , joining: '') w))
          else if js_strict_eq ty (JStr ''member_left_channel'') then
            receive_msg sb (LeaveMessage user (msg_ts m))
              (emit (Log LDebug ''Received leave message for user: , joining: '') w)
          else if js_strict_eq ty (JStr ''reaction_added'') \<or> js_strict_eq ty (JStr ''reaction_removed'') then
            reaction_case sb user from ev w
          else if js_strict_eq ty (JStr ''file_shared'') then
            receive_msg sb (FileSharedMessage from (obj_get ev ''file_id'') (obj_get ev ''event_ts''))
              (emit (Log LDebug ''Received file_shared message from: , file_id: '') w)
          else default_case sb chan from ev w)"

text \<open>
  Lines 438-489, up to the classification.
  \<^verbatim>\<open>
  async eventHandler(message) {
    this.robot.logger.debug(`eventHandler ${JSON.stringify(message, null, 2)}`);
    if (message?.ack) {
      await message?.ack();
    }
    if(!message?.body?.event?.user) {
      return;
    }
    let msg;
    const {user, channel} = message.event;
    const event_team_id = message.event.team;
    ... (the acting user, see resolve_user)
    // Ignore anything we sent
    if (from?.id === this.self.user_id) {
      return ;
    }
    this.robot.logger.debug(`event ${JSON.stringify(message, null, 2)} user = ${user}`);
    from.room = channel ?? '';
    from.name = from?.name ?? null;
    // add the bot id to the message if it's a direct message
    message.body.event.text = this.addBotIdToMessage(message.body.event);
    message.body.event.text = this.replaceBotIdWithName(message.body.event);
    this.robot.logger.debug(`Text = ${message.body.event.text}`);
    this.robot.logger.debug(`Event subtype = ${message.body.event?.subtype}`);
    try { switch (message.event.type) { ... } } catch (e) { this.robot.logger.error(e); }
  }
  \<close>
  Only an object has a property \<open>user\<close>, so \<open>message.body.event\<close> is an object
  when the first test lets the event pass. \<open>from.room = ...\<close> on an absent user is
  a \<open>TypeError\<close>.
\<close>

definition handle_from ::
  "slackbot \<Rightarrow> sm_message \<Rightarrow> jsval \<Rightarrow> jsval \<Rightarrow> jsobj \<Rightarrow> jsobj option \<Rightarrow> world \<Rightarrow> (exn + jsval) \<times> world" where
  "handle_from sb m user chan ev from w =
     (case from of
        None \<Rightarrow> (Inl TypeError, w)
      | Some f \<Rightarrow>
          (let from1 = set_room_and_name f chan;
               w1 = w\<lparr>brain_users := (brain_users w)(to_string user \<mapsto> from1)\<rparr>
           in case preprocess_text sb ev of
                Inl e \<Rightarrow> (Inl e, w1)
              | Inr ev2 \<Rightarrow>
                  (Inr JUndefined,
                   caught (classify sb m user chan from1 ev2
                     (emit (Log LDebug ''Event subtype = '') (emit (Log LDebug ''Text = '') w1))))))"

definition eventHandler :: "slackbot \<Rightarrow> world \<Rightarrow> sm_message \<Rightarrow> (exn + jsval) \<times> world" where
  "eventHandler sb w m =
     (case run_ack m (emit (Log LDebug ''eventHandler '') w) of
        (Some e, w1) \<Rightarrow> (Inl e, w1)
      | (None, w1) \<Rightarrow>
          (case js_opt_get (msg_body m) ''event'' of
             JObj ev \<Rightarrow>
               if \<not> truthy (obj_get ev ''user'') then (Inr JUndefined, w1)
               else
                 (case js_get (msg_event m) ''user'' of
                    Inl e \<Rightarrow> (Inl e, w1)
                  | Inr user \<Rightarrow>
                      (case resolve_user sb w1 user of
                         (Inl e, w2) \<Rightarrow> (Inl e, w2)
                       | (Inr from, w2) \<Rightarrow>
                           (case js_get (self sb) ''user_id'' of
                              Inl e \<Rightarrow> (Inl e, w2)
                            | Inr self_id \<Rightarrow>
                                if js_strict_eq (from_id from) self_id then (Inr JUndefined, w2)
                                else handle_from sb m user (js_opt_get (msg_event m) ''channel'') ev from
                                       (emit (Log LDebug ''event  user = '') w2))))
           | _ \<Rightarrow> (Inr JUndefined, w1)))"

section \<open>Vocabulary of the properties\<close>

text \<open>A client as its constructor leaves it (\<open>this.channelData = {}\<close>), with an empty
  brain and nothing done yet.\<close>

definition new_world :: world where
  "new_world = \<lparr>channelData = Map.empty, brain_users = Map.empty, effects = []\<rparr>"

subsection \<open>The conversation cache\<close>

text \<open>The states of a client whose cache only \<open>fetchConversation\<close> writes; the other
  methods of Bot.mjs change the brain and the effects and leave \<open>channelData\<close> alone.\<close>

inductive reachable :: "world \<Rightarrow> bool" where
  reachable_new: "reachable new_world"
| reachable_fetch: "reachable w \<Longrightarrow> reachable (snd (fetchConversation ttl info t0 t1 w conversationId))"
| reachable_other: "reachable w \<Longrightarrow> reachable (w\<lparr>brain_users := b, effects := es\<rparr>)"

text \<open>Every cache entry holds a channel that is neither \<open>null\<close> nor \<open>undefined\<close>.\<close>

definition cache_inv :: "world \<Rightarrow> bool" where
  "cache_inv w = (\<forall>k e. channelData w k = Some e \<longrightarrow> \<not> nullish (channel e))"

text \<open>No entry for the conversation, or one whose age \<open>now - updated\<close> is not below
  the TTL.\<close>

definition ttl_elapsed :: "jsnum \<Rightarrow> int \<Rightarrow> world \<Rightarrow> string \<Rightarrow> bool" where
  "ttl_elapsed ttl now w conversationId =
     (case channelData w conversationId of
        None \<Rightarrow> True
      | Some e \<Rightarrow> \<not> num_lt (num_sub (Num now) (Num (updated e))) ttl)"

subsection \<open>User pages\<close>

definition members_of :: "jsval \<Rightarrow> jsval list" where
  "members_of results = (case page_members results of Inl e \<Rightarrow> [] | Inr ms \<Rightarrow> ms)"

definition has_members :: "jsval \<Rightarrow> bool" where
  "has_members results = (case page_members results of Inl e \<Rightarrow> False | Inr ms \<Rightarrow> True)"

text \<open>\<open>all_pages users_list lim cur ps\<close>: the request with cursor \<open>cur\<close> is answered
  by the first page of \<open>ps\<close>, each page's cursor leads to the next page, and the last
  page has no cursor. \<open>pages_then_error users_list lim cur ps err\<close>: the same chain,
  every page with a cursor, and the request after the last page fails with \<open>err\<close>.\<close>

fun all_pages :: "(jsnum \<Rightarrow> jsval option \<Rightarrow> exn + jsval) \<Rightarrow> jsnum \<Rightarrow> jsval option \<Rightarrow> jsval list \<Rightarrow> bool" where
  "all_pages users_list lim cur [] = False"
| "all_pages users_list lim cur (p # ps) =
     (users_list lim cur = Inr p \<and> has_members p
      \<and> (if ps = [] then \<not> truthy (page_cursor p)
          else truthy (page_cursor p) \<and> all_pages users_list lim (Some (page_cursor p)) ps))"

fun pages_then_error ::
  "(jsnum \<Rightarrow> jsval option \<Rightarrow> exn + jsval) \<Rightarrow> jsnum \<Rightarrow> jsval option \<Rightarrow> jsval list \<Rightarrow> exn \<Rightarrow> bool" where
  "pages_then_error users_list lim cur [] err = (users_list lim cur = Inl err)"
| "pages_then_error users_list lim cur (p # ps) err =
     (users_list lim cur = Inr p \<and> has_members p \<and> truthy (page_cursor p)
      \<and> pages_then_error users_list lim (Some (page_cursor p)) ps err)"

text \<open>The requests that follow the pages \<open>ps\<close>, each with the cursor of its page.\<close>

definition next_requests :: "jsnum \<Rightarrow> jsval list \<Rightarrow> effect list" where
  "next_requests lim ps = map (\<lambda>p. Rest (UsersList lim (Some (page_cursor p)))) ps"

subsection \<open>User records\<close>

text \<open>The keys \<open>updateUserInBrain\<close> writes into \<open>newUser\<close> from the payload.\<close>

definition built_keys :: "jsval \<Rightarrow> string set" where
  "built_keys user =
     {''id'', ''name'', ''real_name'', ''slack''}
     \<union> (if nullish (profile_email user) then {} else {''email_address''})"

subsection \<open>Text preprocessing\<close>

text \<open>What \<open>replaceBotIdWithName\<close> puts in place of the mention: the alias if there is
  one, \<open>@name\<close> otherwise.\<close>

definition mention_replacement :: "slackbot \<Rightarrow> string" where
  "mention_replacement sb =
     (if truthy (robot_alias sb) then to_string (robot_alias sb)
      else ''@'' @ to_string (js_opt_get (self sb) ''user''))"

subsection \<open>Example data\<close>

text \<open>A bot \<open>hubot\<close> with user ID \<open>U123\<close> and no alias (\<open>robot.alias\<close> is
  \<open>false\<close>), a brain that knows the user \<open>U2\<close> and the bot itself, and four
  events: a direct message \<open>hello\<close> from \<open>U2\<close>, \<open>U2\<close> leaving a channel,
  \<open>U2\<close> joining a channel, and a message of the bot's own.\<close>

definition example_bot :: slackbot where
  "example_bot =
     \<lparr>self = JObj [(''user_id'', JStr ''U123''), (''user'', JStr ''hubot'')],
      robot_alias = JBool False,
      robot_name = JStr ''hubot'',
      web_users_info = (\<lambda>user. Inl (Error ''user_not_found'')),
      brain_userForId = (\<lambda>users uid options. (own_entries options, users(to_string uid \<mapsto> own_entries options))),
      makeSlackTextMessage = (\<lambda>from text ev chan name alias w. (Inr (SlackTextMessage from text (JObj ev)), w)),
      robot_receive = (\<lambda>msg. None)\<rparr>"

definition example_brain :: world where
  "example_brain =
     new_world\<lparr>brain_users :=
       [''U2'' \<mapsto> [(''id'', JStr ''U2''), (''name'', JStr ''alice''), (''karma'', JNum (Num 7))],
        ''U123'' \<mapsto> [(''id'', JStr ''U123''), (''name'', JStr ''hubot'')]]\<rparr>"

definition hello_event :: jsobj where
  "hello_event = [(''type'', JStr ''message''), (''channel_type'', JStr ''im''), (''user'', JStr ''U2''),
                  (''channel'', JStr ''D1''), (''text'', JStr ''hello'')]"

definition hello_message :: sm_message where
  "hello_message = \<lparr>msg_ack = Some None, msg_body = JObj [(''event'', JObj hello_event)],
                     msg_event = JObj hello_event, msg_ts = JUndefined\<rparr>"

definition left_event :: jsobj where
  "left_event = [(''type'', JStr ''member_left_channel''), (''user'', JStr ''U2''),
                 (''channel'', JStr ''C1''), (''ts'', JStr ''1700000000.000100'')]"

definition left_message :: sm_message where
  "left_message = \<lparr>msg_ack = Some None, msg_body = JObj [(''event'', JObj left_event)],
                    msg_event = JObj left_event, msg_ts = JStr ''1700000001.000200''\<rparr>"

definition joined_event :: jsobj where
  "joined_event = [(''type'', JStr ''member_joined_channel''), (''user'', JStr ''U2''),
                   (''channel'', JStr ''C1''), (''ts'', JStr ''1700000002.000300'')]"

definition joined_message :: sm_message where
  "joined_message = \<lparr>msg_ack = Some None, msg_body = JObj [(''event'', JObj joined_event)],
                      msg_event = JObj joined_event, msg_ts = JStr ''1700000003.000400''\<rparr>"

definition own_event :: jsobj where
  "own_event = [(''type'', JStr ''message''), (''user'', JStr ''U123''),
                (''channel'', JStr ''C1''), (''text'', JStr ''pong'')]"

definition own_message :: sm_message where
  "own_message = \<lparr>msg_ack = Some None, msg_body = JObj [(''event'', JObj own_event)],
                   msg_event = JObj own_event, msg_ts = JUndefined\<rparr>"

text \<open>A new sighting of \<open>U2\<close>, with a new name and an email address.\<close>

definition alice_payload :: jsobj where
  "alice_payload = [(''id'', JStr ''U2''), (''name'', JStr ''alice.b''), (''real_name'', JStr ''Alice B''),
                    (''profile'', JObj [(''email'', JStr ''alice@example.org'')])]"

text \<open>The same sighting as a \<open>user_change\<close> event, and a brain whose record of
  \<open>U2\<close> also has a key \<open>constructor\<close>.\<close>

definition alice_change :: jsval where
  "alice_change = JObj [(''type'', JStr ''user_change''), (''user'', JObj alice_payload)]"

definition brain_with_constructor :: world where
  "brain_with_constructor =
     new_world\<lparr>brain_users :=
       [''U2'' \<mapsto> [(''id'', JStr ''U2''), (''name'', JStr ''alice''), (''karma'', JNum (Num 7)),
                     (''constructor'', JStr ''mason'')]]\<rparr>"

text \<open>A user directory of two pages, and one whose second request fails.\<close>

definition page1 :: jsval where
  "page1 = JObj [(''members'', JArr [JObj [(''id'', JStr ''U1'')]]),
                 (''response_metadata'', JObj [(''next_cursor'', JStr ''c1'')])]"

definition page2 :: jsval where
  "page2 = JObj [(''members'', JArr [JObj [(''id'', JStr ''U2'')]]),
                 (''response_metadata'', JObj [(''next_cursor'', JStr [])])]"

definition two_pages :: "jsnum \<Rightarrow> jsval option \<Rightarrow> exn + jsval" where
  "two_pages lim cur =
     (if cur = None then Inr page1
      else if cur = Some (JStr ''c1'') then Inr page2
      else Inl (Error ''invalid_cursor''))"

definition second_fails :: "jsnum \<Rightarrow> jsval option \<Rightarrow> exn + jsval" where
  "second_fails lim cur = (if cur = None then Inr page1 else Inl (Error ''ratelimited''))"

text \<open>Conversation lookups: one that answers with a channel, one that answers without,
  one that fails; and a client that has fetched \<open>C1\<close> at time 1000.\<close>

definition info_ok :: "string \<Rightarrow> exn + jsval" where
  "info_ok conversationId = Inr (JObj [(''ok'', JBool True), (''channel'', JObj [(''id'', JStr conversationId)])])"

definition info_null :: "string \<Rightarrow> exn + jsval" where
  "info_null conversationId = Inr (JObj [(''ok'', JBool True), (''channel'', JNull)])"

definition info_fails :: "string \<Rightarrow> exn + jsval" where
  "info_fails conversationId = Inl (Error ''channel_not_found'')"

definition cached_world :: world where
  "cached_world = snd (fetchConversation (Num 300000) info_ok 900 1000 new_world ''C1'')"

section \<open>Properties\<close>

subsection \<open>C1: the TTL check at start-up\<close>

lemma num_strict_eq_NaN: "\<not> num_strict_eq n NaN"
  by (cases n) simp_all

lemma parseInt10_abc: "parseInt10 ''abc'' = NaN"
  by (simp add: parseInt10_def is_js_space_def is_digit_def)

lemma parseInt10_250: "parseInt10 ''250'' = Num 250"
  by (simp add: parseInt10_def is_js_space_def is_digit_def digits_val_def digit_val_def)

text \<open>
  C1. The claim: an environment value that is present but does not parse makes module
  initialisation throw. The code compares the parsed value with \<open>=== NaN\<close>, which is
  false for every number, so the \<open>throw\<close> is dead code: initialisation never throws.
  With the value \<open>abc\<close> it succeeds and the TTL is \<open>NaN\<close>. The rest of the claim
  holds: an unset variable gives 300000 and a value that parses gives the parsed
  integer.
\<close>

theorem C1_module_init_never_throws:
  "module_init env = Inr (CONVERSATION_CACHE_TTL_MS env)
   \<and> module_init (Some ''abc'') = Inr NaN
   \<and> module_init None = Inr (Num 300000)
   \<and> module_init (Some ''250'') = Inr (Num 250)"
  by (simp add: module_init_def num_strict_eq_NaN CONVERSATION_CACHE_TTL_MS_def
      parseInt10_abc parseInt10_250)

subsection \<open>Effects and objects: helper lemmas\<close>

lemma effects_emit [simp]: "effects (emit e w) = effects w @ [e]"
  by (simp add: emit_def)

lemma channelData_emit [simp]: "channelData (emit e w) = channelData w"
  by (simp add: emit_def)

lemma brain_users_emit [simp]: "brain_users (emit e w) = brain_users w"
  by (simp add: emit_def)

lemma rest_calls_append [simp]: "rest_calls (xs @ ys) = rest_calls xs @ rest_calls ys"
  by (simp add: rest_calls_def)

lemma rest_calls_simps [simp]:
  "rest_calls [] = []"
  "rest_calls (Rest r # es) = r # rest_calls es"
  "rest_calls (Log l s # es) = rest_calls es"
  "rest_calls (Callback c # es) = rest_calls es"
  "rest_calls (Ack # es) = rest_calls es"
  "rest_calls (Receive msg # es) = rest_calls es"
  by (simp_all add: rest_calls_def)

lemma received_append [simp]: "received (xs @ ys) = received xs @ received ys"
  by (simp add: received_def)

lemma received_simps [simp]:
  "received [] = []"
  "received (Receive msg # es) = msg # received es"
  "received (Rest r # es) = received es"
  "received (Log l s # es) = received es"
  "received (Callback c # es) = received es"
  "received (Ack # es) = received es"
  by (simp_all add: received_def)

lemma obj_has_map_of: "obj_has ps k = (map_of ps k \<noteq> None)"
  by (simp add: obj_has_def map_of_eq_None_iff)

lemma js_get_same_base: "js_get v k = Inr x \<Longrightarrow> js_get v k' = Inr (js_opt_get v k')"
  by (cases v) (simp_all add: js_opt_get_def)




lemma update_absent: "k \<notin> fst ` set al \<Longrightarrow> AList.update k v al = al @ [(k, v)]"
  by (induction al) auto

lemma foldl_obj_set_distinct:
  "distinct (map fst (base @ ps)) \<Longrightarrow>
   foldl (\<lambda>acc kv. obj_set acc (fst kv) (snd kv)) base ps = base @ ps"
proof (induction ps arbitrary: base)
  case Nil
  then show ?case by simp
next
  case (Cons p ps)
  from Cons.prems have "fst p \<notin> fst ` set base" by auto
  then have "obj_set base (fst p) (snd p) = base @ [p]"
    by (simp add: obj_set_def update_absent)
  moreover from Cons.prems have "distinct (map fst ((base @ [p]) @ ps))" by simp
  ultimately show ?case using Cons.IH[of "base @ [p]"] by simp
qed

lemma spread_empty_obj: "distinct (map fst ps) \<Longrightarrow> spread [] (JObj ps) = ps"
  using foldl_obj_set_distinct[of "[]" ps] by (simp add: spread_def)


subsection \<open>C2: the payload of \<open>send\<close>\<close>





subsection \<open>C9: \<open>send\<close> without a room\<close>

text \<open>
  C9. With an envelope that has neither a \<open>room\<close> nor an \<open>id\<close> field, \<open>send\<close>
  returns \<open>undefined\<close> without raising, its only effect is one error log, and no REST
  call is made, whatever the message is.
\<close>

theorem C9_send_without_room:
  assumes "\<not> obj_has envelope ''room''" and "\<not> obj_has envelope ''id''"
  shows "send postMessage w envelope message =
           (Inr JUndefined,
            w\<lparr>effects := effects w @
              [Log LError ''Cannot send message without a valid room. Envelopes should contain a room property set to a Slack conversation ID.'']\<rparr>)
         \<and> rest_calls (effects (snd (send postMessage w envelope message))) = rest_calls (effects w)"
proof -
  from assms have "map_of envelope ''room'' = None" "map_of envelope ''id'' = None"
    by (simp_all add: obj_has_map_of)
  then have "send_room envelope = JUndefined"
    by (simp add: send_room_def obj_get_def)
  then show ?thesis
    by (simp add: send_def nullish_def emit_def)
qed

theorem C9_send_without_room_example:
  "\<not> obj_has [(''user'', JObj [(''name'', JStr ''alice'')])] ''room''
   \<and> \<not> obj_has [(''user'', JObj [(''name'', JStr ''alice'')])] ''id''
   \<and> send (\<lambda>p. Inr JNull) new_world [(''user'', JObj [(''name'', JStr ''alice'')])] (JStr ''hi'') =
       (Inr JUndefined,
        new_world\<lparr>effects :=
          [Log LError ''Cannot send message without a valid room. Envelopes should contain a room property set to a Slack conversation ID.'']\<rparr>)
   \<and> rest_calls (effects (snd (send (\<lambda>p. Inr JNull) new_world
         [(''user'', JObj [(''name'', JStr ''alice'')])] (JStr ''hi'')))) = []"
proof -
  have a: "\<not> obj_has [(''user'', JObj [(''name'', JStr ''alice'')])] ''room''"
    and b: "\<not> obj_has [(''user'', JObj [(''name'', JStr ''alice'')])] ''id''"
    by (simp_all add: obj_has_def)
  show ?thesis
    using a b C9_send_without_room[OF a b, of "\<lambda>p. Inr JNull" new_world "JStr ''hi''"]
    by (simp add: new_world_def)
qed

subsection \<open>C5 and C10: the conversation cache\<close>

lemma num_lt_expiration:
  "num_lt (num_sub (Num now) ttl) (Num u) = num_lt (num_sub (Num now) (Num u)) ttl"
  by (cases ttl) auto

lemma cache_hit_iff:
  "cache_hit ttl now w cid =
     (\<exists>e. channelData w cid = Some e \<and> \<not> nullish (channel e)
          \<and> num_lt (num_sub (Num now) (Num (updated e))) ttl)"
  by (cases "channelData w cid")
     (simp_all add: cache_hit_def cached_channel_def cached_updated_def nullish_def num_lt_expiration)

lemma elapsed_not_hit: "ttl_elapsed ttl now w cid \<Longrightarrow> \<not> cache_hit ttl now w cid"
  by (auto simp: ttl_elapsed_def cache_hit_iff)

lemma fetch_hit:
  assumes "channelData w cid = Some e" "\<not> nullish (channel e)"
    "num_lt (num_sub (Num t0) (Num (updated e))) ttl"
  shows "fetchConversation ttl info t0 t1 w cid = (Inr (channel e), w)"
proof -
  from assms have "cache_hit ttl t0 w cid" by (simp add: cache_hit_iff)
  with assms(1) show ?thesis by (simp add: fetchConversation_def cached_channel_def)
qed

lemma fetch_miss_stored:
  assumes "\<not> cache_hit ttl t0 w cid" "info cid = Inr r" "js_get r ''channel'' = Inr ch" "\<not> nullish ch"
  shows "fetchConversation ttl info t0 t1 w cid =
           (Inr ch, w\<lparr>channelData := (channelData w)(cid \<mapsto> \<lparr>channel = ch, updated = t1\<rparr>),
                      effects := effects w @ [Rest (ConversationsInfo cid)]\<rparr>)"
  using assms by (simp add: fetchConversation_def Let_def emit_def)

lemma fetch_miss_not_stored:
  assumes "\<not> cache_hit ttl t0 w cid"
    and "info cid = Inl err \<and> res = Inl err
         \<or> (\<exists>r. info cid = Inr r \<and> js_get r ''channel'' = Inr ch \<and> nullish ch \<and> res = Inr ch)"
  shows "fetchConversation ttl info t0 t1 w cid =
           (res, w\<lparr>channelData := (channelData w)(cid := None),
                     effects := effects w @ [Rest (ConversationsInfo cid)]\<rparr>)"
proof (cases "channelData w cid")
  case None
  then have "(channelData w)(cid := None) = channelData w" by (simp add: fun_eq_iff)
  with None assms show ?thesis by (auto simp: fetchConversation_def Let_def emit_def)
next
  case (Some e)
  with assms show ?thesis by (auto simp: fetchConversation_def Let_def emit_def)
qed

lemma fetch_channelData_cases:
  assumes "channelData (snd (fetchConversation ttl info t0 t1 w cid)) k = Some e"
  shows "channelData w k = Some e
         \<or> (k = cid \<and> updated e = t1 \<and> \<not> nullish (channel e)
            \<and> (\<exists>r. info cid = Inr r \<and> js_get r ''channel'' = Inr (channel e)))"
  using assms
  by (auto simp: fetchConversation_def Let_def split: if_splits sum.splits)

lemma fetch_preserves_inv:
  assumes "cache_inv w"
  shows "cache_inv (snd (fetchConversation ttl info t0 t1 w cid))"
  unfolding cache_inv_def
proof (intro allI impI)
  fix k e
  assume "channelData (snd (fetchConversation ttl info t0 t1 w cid)) k = Some e"
  from fetch_channelData_cases[OF this] assms show "\<not> nullish (channel e)"
    by (auto simp: cache_inv_def)
qed

lemma reachable_inv: "reachable w \<Longrightarrow> cache_inv w"
proof (induction rule: reachable.induct)
  case reachable_new
  show ?case by (simp add: cache_inv_def new_world_def)
next
  case (reachable_fetch w ttl info t0 t1 conversationId)
  then show ?case by (simp add: fetch_preserves_inv)
next
  case (reachable_other w b es)
  then show ?case by (simp add: cache_inv_def)
qed

lemma fetch_absent_calls_rest:
  assumes "channelData w cid = None"
  shows "effects (snd (fetchConversation ttl info t0 t1 w cid)) = effects w @ [Rest (ConversationsInfo cid)]"
proof -
  from assms have "\<not> cache_hit ttl t0 w cid" by (simp add: cache_hit_iff)
  with assms show ?thesis
    by (simp add: fetchConversation_def Let_def split: sum.splits)
qed

lemma cached_world_eq:
  "cached_world = new_world\<lparr>channelData := [''C1'' \<mapsto> \<lparr>channel = JObj [(''id'', JStr ''C1'')], updated = 1000\<rparr>],
                             effects := [Rest (ConversationsInfo ''C1'')]\<rparr>"
  by (simp add: cached_world_def fetchConversation_def cache_hit_def cached_channel_def
      new_world_def info_ok_def obj_get_def nullish_def emit_def)

lemma reachable_cached_world: "reachable cached_world"
  unfolding cached_world_def by (rule reachable_fetch) (rule reachable_new)

text \<open>
  C5. In a client whose cache only \<open>fetchConversation\<close> writes:
  \<^item> while an entry for the conversation has \<open>now - updated < TTL\<close>, the call returns
    the stored channel and leaves the state as it is, so it makes no REST call;
  \<^item> with no entry, or with an entry whose TTL has elapsed, a lookup that answers with
    a channel makes the call return that channel; the state then differs by exactly
    one \<open>conversations.info\<close> call and by the entry, replaced by the new channel
    with the time read at the store;
  \<^item> in the same situation a lookup that fails is propagated (the promise rejects with
    the same error), after exactly one REST call, and the cache has no entry for the
    conversation: the stale one is removed and nothing is stored.
\<close>

theorem C5_fetchConversation_cache:
  "(reachable w \<and> channelData w cid = Some e
      \<and> num_lt (num_sub (Num now) (Num (updated e))) ttl
    \<longrightarrow> fetchConversation ttl info now later w cid = (Inr (channel e), w))
   \<and> (ttl_elapsed ttl now w cid \<and> info cid = Inr r \<and> js_get r ''channel'' = Inr ch \<and> \<not> nullish ch
    \<longrightarrow> fetchConversation ttl info now later w cid =
          (Inr ch, w\<lparr>channelData := (channelData w)(cid \<mapsto> \<lparr>channel = ch, updated = later\<rparr>),
                     effects := effects w @ [Rest (ConversationsInfo cid)]\<rparr>))
   \<and> (ttl_elapsed ttl now w cid \<and> info cid = Inl err
    \<longrightarrow> fetchConversation ttl info now later w cid =
          (Inl err, w\<lparr>channelData := (channelData w)(cid := None),
                      effects := effects w @ [Rest (ConversationsInfo cid)]\<rparr>))"
proof (intro conjI impI)
  assume a: "reachable w \<and> channelData w cid = Some e
      \<and> num_lt (num_sub (Num now) (Num (updated e))) ttl"
  then have "cache_inv w" by (simp add: reachable_inv)
  with a have "\<not> nullish (channel e)" by (auto simp: cache_inv_def)
  with a show "fetchConversation ttl info now later w cid = (Inr (channel e), w)"
    by (simp add: fetch_hit)
next
  assume "ttl_elapsed ttl now w cid \<and> info cid = Inr r \<and> js_get r ''channel'' = Inr ch \<and> \<not> nullish ch"
  then show "fetchConversation ttl info now later w cid =
          (Inr ch, w\<lparr>channelData := (channelData w)(cid \<mapsto> \<lparr>channel = ch, updated = later\<rparr>),
                     effects := effects w @ [Rest (ConversationsInfo cid)]\<rparr>)"
    by (simp add: fetch_miss_stored elapsed_not_hit)
next
  assume "ttl_elapsed ttl now w cid \<and> info cid = Inl err"
  then show "fetchConversation ttl info now later w cid =
          (Inl err, w\<lparr>channelData := (channelData w)(cid := None),
                      effects := effects w @ [Rest (ConversationsInfo cid)]\<rparr>)"
    by (simp add: fetch_miss_not_stored elapsed_not_hit)
qed

text \<open>The example: \<open>C1\<close> was fetched at time 1000 and the TTL is 300000. At time 2000
  the entry is returned without a call; at time 400000 a new lookup is made and stored
  with the time 400007 of the store; a lookup that fails then leaves no entry.\<close>

theorem C5_fetchConversation_cache_example:
  "reachable cached_world
   \<and> fetchConversation (Num 300000) info_fails 2000 2001 cached_world ''C1''
       = (Inr (JObj [(''id'', JStr ''C1'')]), cached_world)
   \<and> ttl_elapsed (Num 300000) 400000 cached_world ''C1''
   \<and> fetchConversation (Num 300000) info_ok 400000 400007 cached_world ''C1''
       = (Inr (JObj [(''id'', JStr ''C1'')]),
          cached_world\<lparr>channelData := (channelData cached_world)
                          (''C1'' \<mapsto> \<lparr>channel = JObj [(''id'', JStr ''C1'')], updated = 400007\<rparr>),
                        effects := [Rest (ConversationsInfo ''C1''), Rest (ConversationsInfo ''C1'')]\<rparr>)
   \<and> fetchConversation (Num 300000) info_fails 400000 400007 cached_world ''C1''
       = (Inl (Error ''channel_not_found''),
          cached_world\<lparr>channelData := (channelData cached_world)(''C1'' := None),
                        effects := [Rest (ConversationsInfo ''C1''), Rest (ConversationsInfo ''C1'')]\<rparr>)"
proof -
  have e: "channelData cached_world ''C1'' = Some \<lparr>channel = JObj [(''id'', JStr ''C1'')], updated = 1000\<rparr>"
    and ef: "effects cached_world = [Rest (ConversationsInfo ''C1'')]"
    by (simp_all add: cached_world_eq)
  have el: "ttl_elapsed (Num 300000) 400000 cached_world ''C1''"
    by (simp add: ttl_elapsed_def e)
  have ok: "info_ok ''C1'' = Inr (JObj [(''ok'', JBool True), (''channel'', JObj [(''id'', JStr ''C1'')])])"
    and g: "js_get (JObj [(''ok'', JBool True), (''channel'', JObj [(''id'', JStr ''C1'')])]) ''channel''
            = Inr (JObj [(''id'', JStr ''C1'')])"
    and n: "\<not> nullish (JObj [(''id'', JStr ''C1'')])"
    and f: "info_fails ''C1'' = Inl (Error ''channel_not_found'')"
    by (simp_all add: info_ok_def info_fails_def obj_get_def nullish_def)
  have hit: "fetchConversation (Num 300000) info_fails 2000 2001 cached_world ''C1''
       = (Inr (JObj [(''id'', JStr ''C1'')]), cached_world)"
    using reachable_cached_world e
      C5_fetchConversation_cache[where w = cached_world and cid = "''C1''" and now = 2000
        and e = "\<lparr>channel = JObj [(''id'', JStr ''C1'')], updated = 1000\<rparr>"
        and ttl = "Num 300000" and info = info_fails and later = 2001]
    by simp
  have stored: "fetchConversation (Num 300000) info_ok 400000 400007 cached_world ''C1''
       = (Inr (JObj [(''id'', JStr ''C1'')]),
          cached_world\<lparr>channelData := (channelData cached_world)
                          (''C1'' \<mapsto> \<lparr>channel = JObj [(''id'', JStr ''C1'')], updated = 400007\<rparr>),
                        effects := [Rest (ConversationsInfo ''C1''), Rest (ConversationsInfo ''C1'')]\<rparr>)"
    using el ok g n ef
      C5_fetchConversation_cache[where w = cached_world and cid = "''C1''" and now = 400000
        and ttl = "Num 300000" and info = info_ok and later = 400007
        and r = "JObj [(''ok'', JBool True), (''channel'', JObj [(''id'', JStr ''C1'')])]"
        and ch = "JObj [(''id'', JStr ''C1'')]"]
    by simp
  have failed: "fetchConversation (Num 300000) info_fails 400000 400007 cached_world ''C1''
       = (Inl (Error ''channel_not_found''),
          cached_world\<lparr>channelData := (channelData cached_world)(''C1'' := None),
                        effects := [Rest (ConversationsInfo ''C1''), Rest (ConversationsInfo ''C1'')]\<rparr>)"
    using el f ef
      C5_fetchConversation_cache[where w = cached_world and cid = "''C1''" and now = 400000
        and ttl = "Num 300000" and info = info_fails and later = 400007
        and err = "Error ''channel_not_found''"]
    by simp
  from reachable_cached_world el hit stored failed show ?thesis by simp
qed

text \<open>
  C10. The cache of a client that only \<open>fetchConversation\<close> writes holds no entry with
  a \<open>null\<close> or \<open>undefined\<close> channel. An entry found after a call is an entry that
  was there before or the one the call stored: then it is the entry of the requested
  conversation, its channel is the non-null channel of the REST answer and its
  timestamp is the time read at the store. When the answer's channel is \<open>null\<close> or
  \<open>undefined\<close>, the call returns it after one REST call and leaves no entry for the
  conversation, so the next call for the same ID makes a REST call again, whatever the
  time and the TTL.
\<close>

theorem C10_cache_holds_only_channels:
  "(reachable w \<longrightarrow> cache_inv w)
   \<and> (channelData (snd (fetchConversation ttl info now later w cid)) k = Some e
      \<longrightarrow> channelData w k = Some e
          \<or> (k = cid \<and> updated e = later \<and> \<not> nullish (channel e)
             \<and> (\<exists>r. info cid = Inr r \<and> js_get r ''channel'' = Inr (channel e))))
   \<and> (ttl_elapsed ttl now w cid \<and> info cid = Inr r \<and> js_get r ''channel'' = Inr ch \<and> nullish ch
      \<longrightarrow> fetchConversation ttl info now later w cid =
            (Inr ch, w\<lparr>channelData := (channelData w)(cid := None),
                       effects := effects w @ [Rest (ConversationsInfo cid)]\<rparr>)
          \<and> effects (snd (fetchConversation ttl' info' now' later'
                            (snd (fetchConversation ttl info now later w cid)) cid))
            = effects w @ [Rest (ConversationsInfo cid), Rest (ConversationsInfo cid)])"
proof (intro conjI impI)
  assume "reachable w"
  then show "cache_inv w" by (rule reachable_inv)
next
  assume "channelData (snd (fetchConversation ttl info now later w cid)) k = Some e"
  then show "channelData w k = Some e
          \<or> (k = cid \<and> updated e = later \<and> \<not> nullish (channel e)
             \<and> (\<exists>r. info cid = Inr r \<and> js_get r ''channel'' = Inr (channel e)))"
    by (rule fetch_channelData_cases)
next
  assume a: "ttl_elapsed ttl now w cid \<and> info cid = Inr r \<and> js_get r ''channel'' = Inr ch \<and> nullish ch"
  then show first: "fetchConversation ttl info now later w cid =
            (Inr ch, w\<lparr>channelData := (channelData w)(cid := None),
                       effects := effects w @ [Rest (ConversationsInfo cid)]\<rparr>)"
    using fetch_miss_not_stored[of ttl now w cid info _ "Inr ch" ch later] elapsed_not_hit by blast
  show "effects (snd (fetchConversation ttl' info' now' later'
                            (snd (fetchConversation ttl info now later w cid)) cid))
            = effects w @ [Rest (ConversationsInfo cid), Rest (ConversationsInfo cid)]"
    by (simp add: first fetch_absent_calls_rest)
qed

theorem C10_cache_holds_only_channels_example:
  "reachable cached_world \<and> cache_inv cached_world
   \<and> channelData (snd (fetchConversation (Num 300000) info_ok 900 1000 new_world ''C1'')) ''C1''
       = Some \<lparr>channel = JObj [(''id'', JStr ''C1'')], updated = 1000\<rparr>
   \<and> channelData new_world ''C1'' = None
   \<and> ttl_elapsed (Num 300000) 400000 cached_world ''C1''
   \<and> fetchConversation (Num 300000) info_null 400000 400007 cached_world ''C1''
       = (Inr JNull,
          cached_world\<lparr>channelData := (channelData cached_world)(''C1'' := None),
                        effects := [Rest (ConversationsInfo ''C1''), Rest (ConversationsInfo ''C1'')]\<rparr>)
   \<and> effects (snd (fetchConversation (Num 300000) info_ok 400010 400011
                 (snd (fetchConversation (Num 300000) info_null 400000 400007 cached_world ''C1'')) ''C1''))
       = [Rest (ConversationsInfo ''C1''), Rest (ConversationsInfo ''C1''), Rest (ConversationsInfo ''C1'')]"
proof -
  have e: "channelData cached_world ''C1'' = Some \<lparr>channel = JObj [(''id'', JStr ''C1'')], updated = 1000\<rparr>"
    and ef: "effects cached_world = [Rest (ConversationsInfo ''C1'')]"
    by (simp_all add: cached_world_eq)
  have el: "ttl_elapsed (Num 300000) 400000 cached_world ''C1''"
    by (simp add: ttl_elapsed_def e)
  have nl: "info_null ''C1'' = Inr (JObj [(''ok'', JBool True), (''channel'', JNull)])"
    and g: "js_get (JObj [(''ok'', JBool True), (''channel'', JNull)]) ''channel'' = Inr JNull"
    and n: "nullish JNull"
    and nw: "channelData new_world ''C1'' = None"
    by (simp_all add: info_null_def obj_get_def nullish_def new_world_def)
  note T = C10_cache_holds_only_channels[where w = cached_world and ttl = "Num 300000"
      and info = info_null and now = 400000 and later = 400007 and cid = "''C1''"
      and k = "''C1''" and e = "\<lparr>channel = JNull, updated = 0\<rparr>"
      and r = "JObj [(''ok'', JBool True), (''channel'', JNull)]" and ch = JNull
      and ttl' = "Num 300000" and info' = info_ok and now' = 400010 and later' = 400011]
  from T reachable_cached_world have inv: "cache_inv cached_world" by simp
  have prem: "ttl_elapsed (Num 300000) 400000 cached_world ''C1''
      \<and> info_null ''C1'' = Inr (JObj [(''ok'', JBool True), (''channel'', JNull)])
      \<and> js_get (JObj [(''ok'', JBool True), (''channel'', JNull)]) ''channel'' = Inr JNull
      \<and> nullish JNull"
    using el nl g n by (simp only: simp_thms)
  note T3 = T[THEN conjunct2, THEN conjunct2, THEN mp, OF prem]
  have null: "fetchConversation (Num 300000) info_null 400000 400007 cached_world ''C1''
       = (Inr JNull,
          cached_world\<lparr>channelData := (channelData cached_world)(''C1'' := None),
                        effects := [Rest (ConversationsInfo ''C1''), Rest (ConversationsInfo ''C1'')]\<rparr>)"
    using T3[THEN conjunct1] by (simp only: ef append.simps)
  have again: "effects (snd (fetchConversation (Num 300000) info_ok 400010 400011
                 (snd (fetchConversation (Num 300000) info_null 400000 400007 cached_world ''C1'')) ''C1''))
       = [Rest (ConversationsInfo ''C1''), Rest (ConversationsInfo ''C1''), Rest (ConversationsInfo ''C1'')]"
    using T3[THEN conjunct2] by (simp only: ef append.simps)
  from reachable_cached_world inv e[unfolded cached_world_def] nw el null again
  show ?thesis by (simp only: simp_thms)
qed

subsection \<open>C4: merging a user record\<close>

lemma proto_key_listed: "''__proto__'' \<in> set object_prototype_keys"
  by (simp add: object_prototype_keys_def)

lemma map_of_copy_missing_at:
  "map_of (copy_missing newUser old) k =
     (case map_of newUser k of
        Some v \<Rightarrow> Some v
      | None \<Rightarrow> if k \<in> set object_prototype_keys then None else map_of old k)"
  unfolding copy_missing_def
proof (induction old arbitrary: newUser)
  case Nil
  then show ?case by (simp split: option.splits)
next
  case (Cons p old)
  obtain k' v' where p: "p = (k', v')" by (cases p)
  show ?case
  proof (cases "obj_in newUser k'")
    case True
    then show ?thesis
      using Cons.IH[of newUser] p
      by (auto simp: obj_in_def obj_has_map_of split: option.splits)
  next
    case False
    then have np: "k' \<notin> set object_prototype_keys" and no: "\<not> obj_has newUser k'"
      by (simp_all add: obj_in_def)
    from np proto_key_listed have "k' \<noteq> ''__proto__''" by blast
    then have a: "obj_assign newUser k' v' = obj_set newUser k' v'"
      by (simp add: obj_assign_def)
    show ?thesis
      using Cons.IH[of "obj_set newUser k' v'"] p False a np no
      by (auto simp: obj_has_map_of obj_set_def update_conv' split: option.splits)
  qed
qed

lemma foldl_obj_assign_distinct:
  "distinct (map fst (base @ ps)) \<Longrightarrow>
   foldl (\<lambda>acc kv. obj_assign acc (fst kv) (snd kv)) base ps
     = base @ filter (\<lambda>kv. fst kv \<noteq> ''__proto__'') ps"
proof (induction ps arbitrary: base)
  case Nil
  then show ?case by simp
next
  case (Cons p ps)
  show ?case
  proof (cases "fst p = ''__proto__''")
    case True
    from Cons.prems have "distinct (map fst (base @ ps))" by simp
    then show ?thesis using Cons.IH[of base] True by (simp add: obj_assign_def)
  next
    case False
    from Cons.prems have "fst p \<notin> fst ` set base" by auto
    then have "obj_assign base (fst p) (snd p) = base @ [p]"
      using False by (simp add: obj_assign_def obj_set_def update_absent)
    moreover from Cons.prems have "distinct (map fst ((base @ [p]) @ ps))" by simp
    ultimately show ?thesis using Cons.IH[of "base @ [p]"] False by simp
  qed
qed

lemma copy_to_slack_obj:
  "distinct (map fst ps) \<Longrightarrow>
   copy_to_slack (JObj ps) = filter (\<lambda>kv. fst kv \<noteq> ''__proto__'') ps"
  using foldl_obj_assign_distinct[of "[]" ps] by (simp add: copy_to_slack_def)

lemma newUser_of_obj:
  "distinct (map fst ups) \<Longrightarrow>
   newUser_of (JObj ups) uid uname real_name =
     [(''id'', uid), (''name'', uname), (''real_name'', real_name),
      (''slack'', JObj (filter (\<lambda>kv. fst kv \<noteq> ''__proto__'') ups))]
     @ (if nullish (profile_email (JObj ups)) then []
        else [(''email_address'', profile_email (JObj ups))])"
  by (simp add: newUser_of_def obj_set_def copy_to_slack_obj)

lemma update_user_obj:
  "update_user (JObj evs) =
     Inr (if obj_get evs ''type'' = JStr ''user_change'' then obj_get evs ''user'' else JObj evs)"
  by (cases "obj_get evs ''type''") (simp_all add: update_user_def and_then_def)

lemma buildNewUser_obj:
  assumes "update_user ev = Inr (JObj ups)" "distinct (map fst ups)"
  shows "buildNewUser users ev =
           Inr (obj_get ups ''id'',
                case users (to_string (obj_get ups ''id'')) of
                  None \<Rightarrow> newUser_of (JObj ups) (obj_get ups ''id'') (obj_get ups ''name'')
                            (obj_get ups ''real_name'')
                | Some old \<Rightarrow> copy_missing (newUser_of (JObj ups) (obj_get ups ''id'')
                            (obj_get ups ''name'') (obj_get ups ''real_name'')) old)"
  using assms by (simp add: buildNewUser_def and_then_def)

text \<open>
  What the merge does for every payload. The argument is an object \<open>evs\<close>;
  \<open>user\<close>, with the properties \<open>ups\<close>, is its \<open>user\<close> field when its \<open>type\<close> is
  \<open>user_change\<close> and the argument itself otherwise; \<open>old\<close> is the record the brain
  holds under \<open>user.id\<close>. Then \<open>updateUserInBrain\<close> removes the old record from the
  brain and hands \<open>brain.userForId\<close> a record \<open>newUser\<close> in which
  \<^item> \<open>slack\<close> holds the properties of the new payload (all but one named
    \<open>__proto__\<close>), and \<open>id\<close>, \<open>name\<close> and \<open>real_name\<close> are those of the new
    payload;
  \<^item> \<open>email_address\<close> is the new \<open>profile.email\<close> when that is present;
  \<^item> a key of the old record that is not among the keys built from the payload is
    kept with its old value if it is not the name of a member of
    \<open>Object.prototype\<close>, and is absent from \<open>newUser\<close> if it is.
\<close>

lemma updateUserInBrain_merge:
  assumes "(obj_get evs ''type'' = JStr ''user_change'' \<and> obj_get evs ''user'' = JObj ups)
           \<or> (obj_get evs ''type'' \<noteq> JStr ''user_change'' \<and> evs = ups)"
    and "distinct (map fst ups)"
    and "brain_users w (to_string (obj_get ups ''id'')) = Some old"
  shows "\<exists>newUser.
           updateUserInBrain userForId w (JObj evs) =
             (case userForId ((brain_users w)(to_string (obj_get ups ''id'') := None))
                     (obj_get ups ''id'') (JObj newUser) of
                (u, users') \<Rightarrow> (Inr (JObj u), w\<lparr>brain_users := users'\<rparr>))
         \<and> obj_get newUser ''slack'' = JObj (filter (\<lambda>kv. fst kv \<noteq> ''__proto__'') ups)
         \<and> obj_get newUser ''id'' = obj_get ups ''id''
         \<and> obj_get newUser ''name'' = obj_get ups ''name''
         \<and> obj_get newUser ''real_name'' = obj_get ups ''real_name''
         \<and> (\<not> nullish (profile_email (JObj ups))
              \<longrightarrow> obj_get newUser ''email_address'' = profile_email (JObj ups))
         \<and> (\<forall>k. obj_has old k \<and> k \<notin> built_keys (JObj ups) \<and> k \<notin> set object_prototype_keys
              \<longrightarrow> obj_has newUser k \<and> obj_get newUser k = obj_get old k)
         \<and> (\<forall>k. k \<in> set object_prototype_keys \<longrightarrow> \<not> obj_has newUser k)"
proof -
  define built where "built = newUser_of (JObj ups) (obj_get ups ''id'') (obj_get ups ''name'')
      (obj_get ups ''real_name'')"
  from assms(1) have u: "update_user (JObj evs) = Inr (JObj ups)"
    by (auto simp: update_user_obj)
  have b: "buildNewUser (brain_users w) (JObj evs)
        = Inr (obj_get ups ''id'', copy_missing built old)"
    using buildNewUser_obj[OF u assms(2), of "brain_users w"] assms(3) by (simp add: built_def)
  have bl: "built = [(''id'', obj_get ups ''id''), (''name'', obj_get ups ''name''),
                    (''real_name'', obj_get ups ''real_name''),
                    (''slack'', JObj (filter (\<lambda>kv. fst kv \<noteq> ''__proto__'') ups))]
     @ (if nullish (profile_email (JObj ups)) then []
        else [(''email_address'', profile_email (JObj ups))])"
    unfolding built_def using assms(2) by (rule newUser_of_obj)
  have m: "map_of built ''id'' = Some (obj_get ups ''id'')"
    "map_of built ''name'' = Some (obj_get ups ''name'')"
    "map_of built ''real_name'' = Some (obj_get ups ''real_name'')"
    "map_of built ''slack'' = Some (JObj (filter (\<lambda>kv. fst kv \<noteq> ''__proto__'') ups))"
    "\<not> nullish (profile_email (JObj ups))
       \<Longrightarrow> map_of built ''email_address'' = Some (profile_email (JObj ups))"
    by (simp_all add: bl)
  have absent: "\<And>k. k \<notin> built_keys (JObj ups) \<Longrightarrow> map_of built k = None"
    by (simp add: bl built_keys_def split: if_splits)
  have inherited: "\<And>k. k \<in> set object_prototype_keys \<Longrightarrow> map_of built k = None"
    by (auto simp: bl object_prototype_keys_def)
  let ?nu = "copy_missing built old"
  have call: "updateUserInBrain userForId w (JObj evs) =
             (case userForId ((brain_users w)(to_string (obj_get ups ''id'') := None))
                     (obj_get ups ''id'') (JObj ?nu) of
                (u, users') \<Rightarrow> (Inr (JObj u), w\<lparr>brain_users := users'\<rparr>))"
    by (simp add: updateUserInBrain_def b)
  have at: "\<And>k. map_of ?nu k =
      (case map_of built k of
         Some v \<Rightarrow> Some v
       | None \<Rightarrow> if k \<in> set object_prototype_keys then None else map_of old k)"
    by (rule map_of_copy_missing_at)
  have fields: "obj_get ?nu ''slack'' = JObj (filter (\<lambda>kv. fst kv \<noteq> ''__proto__'') ups)"
    "obj_get ?nu ''id'' = obj_get ups ''id''"
    "obj_get ?nu ''name'' = obj_get ups ''name''" "obj_get ?nu ''real_name'' = obj_get ups ''real_name''"
    by (simp_all add: obj_get_def[of ?nu] at m)
  have email: "\<not> nullish (profile_email (JObj ups))
       \<longrightarrow> obj_get ?nu ''email_address'' = profile_email (JObj ups)"
    by (simp add: obj_get_def[of ?nu] at m)
  have kept: "\<forall>k. obj_has old k \<and> k \<notin> built_keys (JObj ups) \<and> k \<notin> set object_prototype_keys
              \<longrightarrow> obj_has ?nu k \<and> obj_get ?nu k = obj_get old k"
  proof (intro allI impI)
    fix k
    assume a: "obj_has old k \<and> k \<notin> built_keys (JObj ups) \<and> k \<notin> set object_prototype_keys"
    then have "map_of built k = None"
      by (simp add: absent)
    with a have "map_of ?nu k = map_of old k" by (simp add: at)
    with a show "obj_has ?nu k \<and> obj_get ?nu k = obj_get old k"
      by (simp add: obj_has_map_of obj_get_def)
  qed
  have dropped: "\<forall>k. k \<in> set object_prototype_keys \<longrightarrow> \<not> obj_has ?nu k"
  proof (intro allI impI)
    fix k
    assume a: "k \<in> set object_prototype_keys"
    then have "map_of ?nu k = None" by (simp add: at inherited)
    then show "\<not> obj_has ?nu k" by (simp add: obj_has_map_of)
  qed
  from call fields email kept dropped show ?thesis by blast
qed

text \<open>
  C4 fails on the code at an old record that holds a key named like a member of
  \<open>Object.prototype\<close>. The loop over the old record copies a key when
  \<open>key in newUser\<close> is false, and \<open>in\<close> is true of every name \<open>newUser\<close>
  inherits: for every \<open>newUser\<close>, \<open>old\<close> and \<open>k\<close>, the loop leaves \<open>k\<close> an own
  property exactly when \<open>newUser\<close> had it or \<open>old\<close> has it and \<open>k\<close> is no member
  of \<open>Object.prototype\<close>, and the value is the one of \<open>newUser\<close>, else the one of
  \<open>old\<close>.

  The failing input: the brain holds \<open>U2\<close> with the keys \<open>id\<close>, \<open>name\<close>,
  \<open>karma\<close> and \<open>constructor\<close>, and a \<open>user_change\<close> event arrives whose \<open>user\<close> is
  the new payload of \<open>U2\<close>. \<open>constructor\<close> is a key of the old record and is not
  among the keys built from the payload, so the claim has it preserved; the record
  handed to \<open>brain.userForId\<close> has the new \<open>id\<close>, \<open>name\<close>, \<open>real_name\<close>,
  \<open>slack\<close> and \<open>email_address\<close> and the old \<open>karma\<close>, and no \<open>constructor\<close>.
\<close>

theorem C4_inherited_key_dropped:
  "obj_has (copy_missing newUser old) k
     = (obj_has newUser k \<or> (obj_has old k \<and> k \<notin> set object_prototype_keys))
   \<and> obj_get (copy_missing newUser old) k
     = (if obj_has newUser k then obj_get newUser k
        else if k \<in> set object_prototype_keys then JUndefined else obj_get old k)
   \<and> brain_users brain_with_constructor ''U2''
     = Some [(''id'', JStr ''U2''), (''name'', JStr ''alice''), (''karma'', JNum (Num 7)),
             (''constructor'', JStr ''mason'')]
   \<and> ''constructor'' \<notin> built_keys (JObj alice_payload)
   \<and> updateUserInBrain (brain_userForId example_bot) brain_with_constructor alice_change
     = (Inr (JObj [(''id'', JStr ''U2''), (''name'', JStr ''alice.b''), (''real_name'', JStr ''Alice B''),
                   (''slack'', JObj alice_payload), (''email_address'', JStr ''alice@example.org''),
                   (''karma'', JNum (Num 7))]),
        brain_with_constructor\<lparr>brain_users := (brain_users brain_with_constructor)
          (''U2'' \<mapsto> [(''id'', JStr ''U2''), (''name'', JStr ''alice.b''), (''real_name'', JStr ''Alice B''),
                      (''slack'', JObj alice_payload), (''email_address'', JStr ''alice@example.org''),
                      (''karma'', JNum (Num 7))])\<rparr>)"
proof -
  have at: "map_of (copy_missing newUser old) k =
     (case map_of newUser k of
        Some v \<Rightarrow> Some v
      | None \<Rightarrow> if k \<in> set object_prototype_keys then None else map_of old k)"
    by (rule map_of_copy_missing_at)
  have h: "obj_has (copy_missing newUser old) k
     = (obj_has newUser k \<or> (obj_has old k \<and> k \<notin> set object_prototype_keys))"
    by (simp add: obj_has_map_of at split: option.splits)
  have g: "obj_get (copy_missing newUser old) k
     = (if obj_has newUser k then obj_get newUser k
        else if k \<in> set object_prototype_keys then JUndefined else obj_get old k)"
    by (simp add: obj_get_def obj_has_map_of at split: option.splits)
  have o: "brain_users brain_with_constructor ''U2''
     = Some [(''id'', JStr ''U2''), (''name'', JStr ''alice''), (''karma'', JNum (Num 7)),
             (''constructor'', JStr ''mason'')]"
    by (simp add: brain_with_constructor_def new_world_def)
  have nb: "''constructor'' \<notin> built_keys (JObj alice_payload)"
    by (simp add: built_keys_def)
  have pe: "profile_email (JObj alice_payload) = JStr ''alice@example.org''"
    by (simp add: profile_email_def alice_payload_def js_opt_get_def obj_get_def nullish_def)
  have u: "update_user alice_change = Inr (JObj alice_payload)"
    by (simp add: alice_change_def update_user_obj obj_get_def)
  have d: "distinct (map fst alice_payload)"
    by (simp add: alice_payload_def)
  have i: "obj_get alice_payload ''id'' = JStr ''U2''" "obj_get alice_payload ''name'' = JStr ''alice.b''"
    "obj_get alice_payload ''real_name'' = JStr ''Alice B''"
    by (simp_all add: alice_payload_def obj_get_def)
  have f: "filter (\<lambda>kv. fst kv \<noteq> ''__proto__'') alice_payload = alice_payload"
    by (simp add: alice_payload_def)
  have nu: "newUser_of (JObj alice_payload) (JStr ''U2'') (JStr ''alice.b'') (JStr ''Alice B'')
      = [(''id'', JStr ''U2''), (''name'', JStr ''alice.b''), (''real_name'', JStr ''Alice B''),
         (''slack'', JObj alice_payload), (''email_address'', JStr ''alice@example.org'')]"
    by (simp add: newUser_of_obj[OF d] f pe nullish_def)
  have cm: "copy_missing [(''id'', JStr ''U2''), (''name'', JStr ''alice.b''), (''real_name'', JStr ''Alice B''),
         (''slack'', JObj alice_payload), (''email_address'', JStr ''alice@example.org'')]
        [(''id'', JStr ''U2''), (''name'', JStr ''alice''), (''karma'', JNum (Num 7)),
         (''constructor'', JStr ''mason'')]
      = [(''id'', JStr ''U2''), (''name'', JStr ''alice.b''), (''real_name'', JStr ''Alice B''),
         (''slack'', JObj alice_payload), (''email_address'', JStr ''alice@example.org''),
         (''karma'', JNum (Num 7))]"
    by (simp add: copy_missing_def obj_in_def obj_has_def obj_assign_def obj_set_def
        object_prototype_keys_def)
  have b: "buildNewUser (brain_users brain_with_constructor) alice_change
      = Inr (JStr ''U2'', [(''id'', JStr ''U2''), (''name'', JStr ''alice.b''), (''real_name'', JStr ''Alice B''),
         (''slack'', JObj alice_payload), (''email_address'', JStr ''alice@example.org''),
         (''karma'', JNum (Num 7))])"
    using buildNewUser_obj[OF u d, of "brain_users brain_with_constructor"]
    by (simp add: i o nu cm)
  have call: "updateUserInBrain (brain_userForId example_bot) brain_with_constructor alice_change
     = (Inr (JObj [(''id'', JStr ''U2''), (''name'', JStr ''alice.b''), (''real_name'', JStr ''Alice B''),
                   (''slack'', JObj alice_payload), (''email_address'', JStr ''alice@example.org''),
                   (''karma'', JNum (Num 7))]),
        brain_with_constructor\<lparr>brain_users := (brain_users brain_with_constructor)
          (''U2'' \<mapsto> [(''id'', JStr ''U2''), (''name'', JStr ''alice.b''), (''real_name'', JStr ''Alice B''),
                      (''slack'', JObj alice_payload), (''email_address'', JStr ''alice@example.org''),
                      (''karma'', JNum (Num 7))])\<rparr>)"
    by (simp add: updateUserInBrain_def b example_bot_def)
  from h g o nb call show ?thesis by (simp only: simp_thms)
qed

subsection \<open>C8: loading the users page by page\<close>

lemma has_members_D: "has_members p \<Longrightarrow> page_members p = Inr (members_of p)"
  by (simp add: has_members_def members_of_def split: sum.splits)

lemma emit_effects_update:
  "(emit e w)\<lparr>effects := effects (emit e w) @ es\<rparr> = w\<lparr>effects := effects w @ e # es\<rparr>"
  by (simp add: emit_def)

lemma pageLoaded_all_pages:
  "all_pages users_list lim cur ps \<Longrightarrow>
   pageLoaded users_list lim acc w (users_list lim cur) =
     Some (None, w\<lparr>effects := effects w @ next_requests lim (butlast ps)
                    @ [Callback (CbResults (acc @ concat (map members_of ps)))]\<rparr>)"
proof (induction ps arbitrary: cur acc w)
  case Nil
  then show ?case by simp
next
  case (Cons p ps)
  from Cons.prems have ans: "users_list lim cur = Inr p" and mem: "page_members p = Inr (members_of p)"
    by (simp_all add: has_members_D)
  show ?case
  proof (cases "ps = []")
    case True
    with Cons.prems have "\<not> truthy (page_cursor p)" by simp
    with ans mem True show ?thesis
      by (subst pageLoaded.simps) (simp add: next_requests_def emit_def)
  next
    case False
    with Cons.prems have t: "truthy (page_cursor p)"
      and rest: "all_pages users_list lim (Some (page_cursor p)) ps" by simp_all
    have "pageLoaded users_list lim acc w (users_list lim cur) =
          pageLoaded users_list lim (acc @ members_of p)
            (emit (Rest (UsersList lim (Some (page_cursor p)))) w)
            (users_list lim (Some (page_cursor p)))"
      using ans mem t by (subst pageLoaded.simps) simp
    also have "\<dots> = Some (None, w\<lparr>effects := effects w @ next_requests lim (butlast (p # ps))
                    @ [Callback (CbResults (acc @ concat (map members_of (p # ps))))]\<rparr>)"
      using Cons.IH[OF rest, of "acc @ members_of p" "emit (Rest (UsersList lim (Some (page_cursor p)))) w"] False
      by (simp add: emit_effects_update next_requests_def)
    finally show ?thesis .
  qed
qed

lemma pageLoaded_pages_then_error:
  "pages_then_error users_list lim cur ps err \<Longrightarrow>
   pageLoaded users_list lim acc w (users_list lim cur) =
     Some (None, w\<lparr>effects := effects w @ next_requests lim ps @ [Callback (CbError err)]\<rparr>)"
proof (induction ps arbitrary: cur acc w)
  case Nil
  then show ?case by (subst pageLoaded.simps) (simp add: next_requests_def emit_def)
next
  case (Cons p ps)
  from Cons.prems have ans: "users_list lim cur = Inr p" and mem: "page_members p = Inr (members_of p)"
    and t: "truthy (page_cursor p)"
    and rest: "pages_then_error users_list lim (Some (page_cursor p)) ps err"
    by (simp_all add: has_members_D)
  have "pageLoaded users_list lim acc w (users_list lim cur) =
        pageLoaded users_list lim (acc @ members_of p)
          (emit (Rest (UsersList lim (Some (page_cursor p)))) w)
          (users_list lim (Some (page_cursor p)))"
    using ans mem t by (subst pageLoaded.simps) simp
  also have "\<dots> = Some (None, w\<lparr>effects := effects w @ next_requests lim (p # ps) @ [Callback (CbError err)]\<rparr>)"
    using Cons.IH[OF rest, of "acc @ members_of p" "emit (Rest (UsersList lim (Some (page_cursor p)))) w"]
    by (simp add: emit_effects_update next_requests_def)
  finally show ?case .
qed

text \<open>
  C8. When the directory answers the first request with the first page of \<open>ps\<close>,
  each later request (made with the cursor of the page before) with the next page,
  and the last page has no cursor, \<open>loadUsers\<close> returns; it has made one request per
  page, in this order, and then invoked the callback once, with the members of all
  pages in order. When instead the request after the pages \<open>ps\<close> fails with \<open>err\<close>,
  \<open>loadUsers\<close> returns; it has made these requests and no other, and then invoked
  the callback once, with \<open>err\<close> and no result.
\<close>

theorem C8_loadUsers_pages:
  "(all_pages users_list lim None ps \<longrightarrow>
      loadUsers users_list lim w =
        Some (None, w\<lparr>effects := effects w @ Rest (UsersList lim None) # next_requests lim (butlast ps)
                       @ [Callback (CbResults (concat (map members_of ps)))]\<rparr>))
   \<and> (pages_then_error users_list lim None ps err \<longrightarrow>
      loadUsers users_list lim w =
        Some (None, w\<lparr>effects := effects w @ Rest (UsersList lim None) # next_requests lim ps
                       @ [Callback (CbError err)]\<rparr>))"
proof (intro conjI impI)
  assume "all_pages users_list lim None ps"
  from pageLoaded_all_pages[OF this, of "[]" "emit (Rest (UsersList lim None)) w"]
  show "loadUsers users_list lim w =
        Some (None, w\<lparr>effects := effects w @ Rest (UsersList lim None) # next_requests lim (butlast ps)
                       @ [Callback (CbResults (concat (map members_of ps)))]\<rparr>)"
    by (simp add: loadUsers_def emit_def)
next
  assume "pages_then_error users_list lim None ps err"
  from pageLoaded_pages_then_error[OF this, of "[]" "emit (Rest (UsersList lim None)) w"]
  show "loadUsers users_list lim w =
        Some (None, w\<lparr>effects := effects w @ Rest (UsersList lim None) # next_requests lim ps
                       @ [Callback (CbError err)]\<rparr>)"
    by (simp add: loadUsers_def emit_def)
qed

theorem C8_loadUsers_pages_example:
  "all_pages two_pages (Num 100) None [page1, page2]
   \<and> loadUsers two_pages (Num 100) new_world =
       Some (None, new_world\<lparr>effects :=
         [Rest (UsersList (Num 100) None), Rest (UsersList (Num 100) (Some (JStr ''c1''))),
          Callback (CbResults [JObj [(''id'', JStr ''U1'')], JObj [(''id'', JStr ''U2'')]])]\<rparr>)
   \<and> pages_then_error second_fails (Num 100) None [page1] (Error ''ratelimited'')
   \<and> loadUsers second_fails (Num 100) new_world =
       Some (None, new_world\<lparr>effects :=
         [Rest (UsersList (Num 100) None), Rest (UsersList (Num 100) (Some (JStr ''c1''))),
          Callback (CbError (Error ''ratelimited''))]\<rparr>)"
proof -
  have c: "page_cursor page1 = JStr ''c1''" "page_cursor page2 = JStr []"
    and m: "page_members page1 = Inr [JObj [(''id'', JStr ''U1'')]]"
      "page_members page2 = Inr [JObj [(''id'', JStr ''U2'')]]"
    by (simp_all add: page_cursor_def page_members_def page1_def page2_def js_opt_get_def obj_get_def)
  have a: "all_pages two_pages (Num 100) None [page1, page2]"
    by (simp add: two_pages_def has_members_def c m)
  have f: "pages_then_error second_fails (Num 100) None [page1] (Error ''ratelimited'')"
    by (simp add: second_fails_def has_members_def c m)
  have e: "effects new_world = []" by (simp add: new_world_def)
  show ?thesis
    using a f
      C8_loadUsers_pages[where users_list = two_pages and lim = "Num 100" and ps = "[page1, page2]"
        and w = new_world]
      C8_loadUsers_pages[where users_list = second_fails and lim = "Num 100" and ps = "[page1]"
        and w = new_world and err = "Error ''ratelimited''"]
    by (simp add: e next_requests_def members_of_def c m)
qed

subsection \<open>C3: the text of a direct message\<close>

lemma str_includes_prefix: "p \<noteq> [] \<Longrightarrow> str_includes (p @ s) p"
  by (cases p) simp_all

lemma replace_from_prefix:
  "p \<noteq> [] \<Longrightarrow> replace_from b (p @ s) p r = b @ get_substitution p b s r @ s"
  by (cases p) simp_all

lemma get_substitution_plain: "CHR ''$'' \<notin> set r \<Longrightarrow> get_substitution m b a r = r"
  by (induction m b a r rule: get_substitution.induct) auto

lemma obj_get_obj_set_same: "obj_get (obj_set ps k v) k = v"
  by (simp add: obj_get_def obj_set_def update_conv')

lemma obj_set_twice: "obj_set (obj_set ps k v) k v' = obj_set ps k v'"
  by (simp add: obj_set_def)

lemma event_text_obj:
  "\<not> nullish (obj_get ev ''text'') \<Longrightarrow> event_text (JObj ev) = Inr (obj_get ev ''text'')"
  by (simp add: event_text_def and_then_def nullish_or_def)

lemma addBotIdToMessage_hello:
  assumes "js_get (self sb) ''user_id'' = Inr (JStr botId)"
    and "obj_get ev ''text'' = JStr ''hello''"
    and "obj_get ev ''channel_type'' = JStr ''im''"
    and "\<not> str_includes ''hello'' botId"
  shows "addBotIdToMessage sb (JObj ev) = Inr (JStr (''<@'' @ botId @ ''> hello''))"
proof -
  have "event_text (JObj ev) = Inr (JStr ''hello'')"
    using event_text_obj[of ev] assms(2) by (simp add: nullish_def)
  with assms show ?thesis
    by (simp add: addBotIdToMessage_def and_then_def js_opt_get_def mention_def)
qed

lemma replaceBotIdWithName_mentioned:
  assumes "js_get (self sb) ''user_id'' = Inr (JStr botId)"
    and "obj_get ev ''text'' = JStr ((''<@'' @ botId @ ''>'') @ rest)"
  shows "replaceBotIdWithName sb (JObj ev) =
           Inr (JStr (get_substitution (''<@'' @ botId @ ''>'') [] rest (mention_replacement sb) @ rest))"
proof -
  have t: "event_text (JObj ev) = Inr (JStr ((''<@'' @ botId @ ''>'') @ rest))"
    using event_text_obj[of ev] assms(2) by (simp add: nullish_def)
  have n: "js_get (self sb) ''user'' = Inr (js_opt_get (self sb) ''user'')"
    using assms(1) by (rule js_get_same_base)
  have i: "str_includes ((''<@'' @ botId @ ''>'') @ rest) (''<@'' @ botId @ ''>'')"
    by (rule str_includes_prefix) simp
  have r: "\<And>repl. str_replace ((''<@'' @ botId @ ''>'') @ rest) (''<@'' @ botId @ ''>'') repl
           = get_substitution (''<@'' @ botId @ ''>'') [] rest repl @ rest"
    unfolding str_replace_def by (subst replace_from_prefix) simp_all
  show ?thesis
    unfolding replaceBotIdWithName_def
    by (simp only: assms(1) n t and_then_def sum.case mention_def to_string.simps js_includes.simps
        i if_True js_replace.simps r mention_replacement_def) simp
qed

text \<open>
  C3, as the code has it. For an event of a direct-message conversation with the text
  \<open>hello\<close>, which does not contain the bot's user ID, the first step yields
  \<open><@BOTID> hello\<close>. The second step then finds that mention at the start of the
  text and replaces it, so the event that classification sees has the text
  \<open>ALIAS hello\<close> when the robot has an alias and \<open>@NAME hello\<close> otherwise, with the
  patterns \<open>$$\<close>, \<open>$&\<close>, \<open>$`\<close> and \<open>$'\<close> of the alias or name expanded as
  \<open>String.prototype.replace\<close> expands them; an alias or name without \<open>$\<close> stands
  for itself.
\<close>

theorem C3_direct_message_text:
  assumes "js_get (self sb) ''user_id'' = Inr (JStr botId)"
    and "obj_get ev ''text'' = JStr ''hello''"
    and "obj_get ev ''channel_type'' = JStr ''im''"
    and "\<not> str_includes ''hello'' botId"
  shows "addBotIdToMessage sb (JObj ev) = Inr (JStr (''<@'' @ botId @ ''> hello''))
       \<and> preprocess_text sb ev =
           Inr (obj_set ev ''text''
                 (JStr (get_substitution (''<@'' @ botId @ ''>'') [] '' hello'' (mention_replacement sb)
                        @ '' hello'')))
       \<and> (CHR ''$'' \<notin> set (mention_replacement sb) \<longrightarrow>
           preprocess_text sb ev = Inr (obj_set ev ''text'' (JStr (mention_replacement sb @ '' hello''))))"
proof -
  have a: "addBotIdToMessage sb (JObj ev) = Inr (JStr (''<@'' @ botId @ ''> hello''))"
    using assms by (rule addBotIdToMessage_hello)
  have "obj_get (obj_set ev ''text'' (JStr (''<@'' @ botId @ ''> hello''))) ''text''
          = JStr ((''<@'' @ botId @ ''>'') @ '' hello'')"
    by (simp add: obj_get_obj_set_same)
  from replaceBotIdWithName_mentioned[OF assms(1) this]
  have b: "replaceBotIdWithName sb (JObj (obj_set ev ''text'' (JStr (''<@'' @ botId @ ''> hello'')))) =
           Inr (JStr (get_substitution (''<@'' @ botId @ ''>'') [] '' hello'' (mention_replacement sb)
                      @ '' hello''))" .
  have p: "preprocess_text sb ev =
           Inr (obj_set ev ''text''
                 (JStr (get_substitution (''<@'' @ botId @ ''>'') [] '' hello'' (mention_replacement sb)
                        @ '' hello'')))"
    by (simp only: preprocess_text_def a b and_then_def sum.case obj_set_twice)
  show ?thesis
  proof (intro conjI impI)
    show "addBotIdToMessage sb (JObj ev) = Inr (JStr (''<@'' @ botId @ ''> hello''))"
      by (rule a)
    show "preprocess_text sb ev =
           Inr (obj_set ev ''text''
                 (JStr (get_substitution (''<@'' @ botId @ ''>'') [] '' hello'' (mention_replacement sb)
                        @ '' hello'')))"
      by (rule p)
    assume "CHR ''$'' \<notin> set (mention_replacement sb)"
    then have "get_substitution (''<@'' @ botId @ ''>'') [] '' hello'' (mention_replacement sb)
               = mention_replacement sb"
      by (rule get_substitution_plain)
    with p show "preprocess_text sb ev = Inr (obj_set ev ''text'' (JStr (mention_replacement sb @ '' hello'')))"
      by (simp only:)
  qed
qed

theorem C3_direct_message_text_example:
  "js_get (self example_bot) ''user_id'' = Inr (JStr ''U123'')
   \<and> obj_get hello_event ''text'' = JStr ''hello''
   \<and> obj_get hello_event ''channel_type'' = JStr ''im''
   \<and> \<not> str_includes ''hello'' ''U123''
   \<and> mention_replacement example_bot = ''@hubot''
   \<and> addBotIdToMessage example_bot (JObj hello_event) = Inr (JStr ''<@U123> hello'')
   \<and> preprocess_text example_bot hello_event = Inr (obj_set hello_event ''text'' (JStr ''@hubot hello''))"
proof -
  have s: "js_get (self example_bot) ''user_id'' = Inr (JStr ''U123'')"
    by (simp add: example_bot_def obj_get_def)
  have t: "obj_get hello_event ''text'' = JStr ''hello''"
    and c: "obj_get hello_event ''channel_type'' = JStr ''im''"
    by (simp_all add: hello_event_def obj_get_def)
  have i: "\<not> str_includes ''hello'' ''U123''" by simp
  have m: "mention_replacement example_bot = ''@hubot''"
    by (simp add: mention_replacement_def example_bot_def js_opt_get_def obj_get_def)
  from C3_direct_message_text[OF s t c i] s t c i m show ?thesis by simp
qed

text \<open>
  C3 as stated fails: for the bot \<open>hubot\<close> (user ID \<open>U123\<close>, no alias) and the direct
  message \<open>hello\<close> of the user \<open>U2\<close>, the first step gives \<open><@U123> hello\<close>, the
  second turns it into \<open>@hubot hello\<close>, and that is the text \<open>eventHandler\<close> hands
  to \<open>makeSlackTextMessage\<close> in the default case of the \<open>switch\<close>.
\<close>

lemma hello_preprocessed:
  "preprocess_text example_bot hello_event =
     Inr [(''type'', JStr ''message''), (''channel_type'', JStr ''im''), (''user'', JStr ''U2''),
          (''channel'', JStr ''D1''), (''text'', JStr ''@hubot hello'')]"
  by (simp add: preprocess_text_def addBotIdToMessage_def replaceBotIdWithName_def event_text_def
      and_then_def example_bot_def hello_event_def obj_get_def js_opt_get_def nullish_or_def nullish_def
      mention_def obj_set_def str_replace_def)

lemmas hello_preprocessed_unfolded = hello_preprocessed[unfolded example_bot_def hello_event_def]

theorem C3_text_is_replaced:
  "addBotIdToMessage example_bot (JObj hello_event) = Inr (JStr ''<@U123> hello'')
   \<and> preprocess_text example_bot hello_event =
       Inr [(''type'', JStr ''message''), (''channel_type'', JStr ''im''), (''user'', JStr ''U2''),
            (''channel'', JStr ''D1''), (''text'', JStr ''@hubot hello'')]
   \<and> received (effects (snd (eventHandler example_bot example_brain hello_message)))
       = [SlackTextMessage
            [(''id'', JStr ''U2''), (''name'', JStr ''alice''), (''karma'', JNum (Num 7)),
             (''room'', JStr ''D1'')]
            (JStr ''@hubot hello'')
            (JObj [(''type'', JStr ''message''), (''channel_type'', JStr ''im''), (''user'', JStr ''U2''),
                   (''channel'', JStr ''D1''), (''text'', JStr ''@hubot hello'')])]
   \<and> JStr ''@hubot hello'' \<noteq> JStr ''<@U123> hello''"
proof -
  have a: "addBotIdToMessage example_bot (JObj hello_event) = Inr (JStr ''<@U123> hello'')"
    by (simp add: addBotIdToMessage_def event_text_def and_then_def example_bot_def hello_event_def
        obj_get_def js_opt_get_def nullish_or_def nullish_def mention_def)
  have r: "received (effects (snd (eventHandler example_bot example_brain hello_message)))
       = [SlackTextMessage
            [(''id'', JStr ''U2''), (''name'', JStr ''alice''), (''karma'', JNum (Num 7)),
             (''room'', JStr ''D1'')]
            (JStr ''@hubot hello'')
            (JObj [(''type'', JStr ''message''), (''channel_type'', JStr ''im''), (''user'', JStr ''U2''),
                   (''channel'', JStr ''D1''), (''text'', JStr ''@hubot hello'')])]"
    by (simp add: eventHandler_def handle_from_def hello_preprocessed_unfolded run_ack_def
        resolve_user_def hello_message_def example_brain_def new_world_def from_id_def
        set_room_and_name_def classify_def default_case_def receive_msg_def caught_def emit_def
        obj_get_def js_opt_get_def nullish_or_def nullish_def obj_set_def example_bot_def
        hello_event_def Let_def)
  from a hello_preprocessed r show ?thesis by simp
qed

subsection \<open>C6: events of the bot's own\<close>

lemma received_run_ack: "run_ack m w = (r, w') \<Longrightarrow> received (effects w') = received (effects w)"
  by (auto simp: run_ack_def split: option.splits)

lemma received_resolve_user:
  "resolve_user sb w user = (r, w') \<Longrightarrow> received (effects w') = received (effects w)"
  by (auto simp: resolve_user_def Let_def split: option.splits sum.splits prod.splits)

lemma received_caught: "received (effects (caught r)) = received (effects (snd r))"
  by (cases r) (auto simp: caught_def split: option.splits)

text \<open>
  C6. The event has an acting user (so it passes the first test), \<open>message.ack\<close>, if
  there is one, returns, and the acting user's record, taken from the brain or
  fetched, has an \<open>id\<close> that is \<open>===\<close> to \<open>this.self.user_id\<close>. Then
  \<open>eventHandler\<close> returns \<open>undefined\<close> in the state the resolution left: nothing
  after the test runs, neither the preprocessing nor the \<open>switch\<close>, and the robot
  has received no message.
\<close>

theorem C6_self_authored_dropped:
  assumes "run_ack m (emit (Log LDebug ''eventHandler '') w) = (None, w1)"
    and "js_opt_get (msg_body m) ''event'' = JObj ev" and "truthy (obj_get ev ''user'')"
    and "js_get (msg_event m) ''user'' = Inr user"
    and "resolve_user sb w1 user = (Inr acting, w2)"
    and "js_get (self sb) ''user_id'' = Inr self_id"
    and "js_strict_eq (from_id acting) self_id"
  shows "eventHandler sb w m = (Inr JUndefined, w2) \<and> received (effects w2) = received (effects w)"
proof -
  have "eventHandler sb w m = (Inr JUndefined, w2)"
    using assms by (simp add: eventHandler_def)
  moreover have "received (effects w2) = received (effects w)"
    using received_resolve_user[OF assms(5)] received_run_ack[OF assms(1)] by simp
  ultimately show ?thesis by simp
qed

theorem C6_self_authored_dropped_example:
  "run_ack own_message (emit (Log LDebug ''eventHandler '') example_brain)
     = (None, example_brain\<lparr>effects := [Log LDebug ''eventHandler '', Ack]\<rparr>)
   \<and> js_opt_get (msg_body own_message) ''event'' = JObj own_event
   \<and> truthy (obj_get own_event ''user'')
   \<and> js_get (msg_event own_message) ''user'' = Inr (JStr ''U123'')
   \<and> resolve_user example_bot (example_brain\<lparr>effects := [Log LDebug ''eventHandler '', Ack]\<rparr>) (JStr ''U123'')
     = (Inr (Some [(''id'', JStr ''U123''), (''name'', JStr ''hubot'')]),
        example_brain\<lparr>effects := [Log LDebug ''eventHandler '', Ack]\<rparr>)
   \<and> js_get (self example_bot) ''user_id'' = Inr (JStr ''U123'')
   \<and> js_strict_eq (from_id (Some [(''id'', JStr ''U123''), (''name'', JStr ''hubot'')])) (JStr ''U123'')
   \<and> eventHandler example_bot example_brain own_message
     = (Inr JUndefined, example_brain\<lparr>effects := [Log LDebug ''eventHandler '', Ack]\<rparr>)
   \<and> received (effects (example_brain\<lparr>effects := [Log LDebug ''eventHandler '', Ack]\<rparr>)) = []"
proof -
  let ?w1 = "example_brain\<lparr>effects := [Log LDebug ''eventHandler '', Ack]\<rparr>"
  let ?me = "Some [(''id'', JStr ''U123''), (''name'', JStr ''hubot'')]"
  have a: "run_ack own_message (emit (Log LDebug ''eventHandler '') example_brain) = (None, ?w1)"
    by (simp add: run_ack_def own_message_def emit_def example_brain_def new_world_def)
  have b: "js_opt_get (msg_body own_message) ''event'' = JObj own_event"
    by (simp add: own_message_def js_opt_get_def obj_get_def)
  have c: "truthy (obj_get own_event ''user'')"
    by (simp add: own_event_def obj_get_def)
  have d: "js_get (msg_event own_message) ''user'' = Inr (JStr ''U123'')"
    by (simp add: own_message_def own_event_def obj_get_def)
  have e: "resolve_user example_bot ?w1 (JStr ''U123'') = (Inr ?me, ?w1)"
    by (simp add: resolve_user_def example_brain_def new_world_def)
  have f: "js_get (self example_bot) ''user_id'' = Inr (JStr ''U123'')"
    by (simp add: example_bot_def obj_get_def)
  have g: "js_strict_eq (from_id ?me) (JStr ''U123'')"
    by (simp add: from_id_def obj_get_def)
  have h: "received (effects example_brain) = []"
    by (simp add: example_brain_def new_world_def)
  from C6_self_authored_dropped[OF a b c d e f g] a b c d e f g h show ?thesis
    by (simp only: simp_thms)
qed

subsection \<open>C7: the timestamps of Leave and Enter messages\<close>

lemma classify_left:
  assumes "js_get (msg_event m) ''type'' = Inr (JStr ''member_left_channel'')"
  shows "received (effects (snd (classify sb m user chan acting ev w)))
         = received (effects w) @ [LeaveMessage user (msg_ts m)]"
  using assms by (simp add: classify_def receive_msg_def)

lemma classify_joined:
  assumes "js_get (msg_event m) ''type'' = Inr (JStr ''member_joined_channel'')"
  shows "received (effects (snd (classify sb m user chan acting ev w)))
         = received (effects w) @ [EnterMessage acting (js_opt_get (msg_event m) ''ts'')]"
  using assms js_get_same_base[OF assms, of "''ts''"] by (simp add: classify_def receive_msg_def)

lemma eventHandler_received:
  "received (effects (snd (eventHandler sb w m))) = received (effects w)
   \<or> (\<exists>chan acting ev w'. received (effects w') = received (effects w)
        \<and> received (effects (snd (eventHandler sb w m)))
            = received (effects (snd (classify sb m (js_opt_get (msg_event m) ''user'') chan acting ev w'))))"
proof -
  obtain a w1 where ack: "run_ack m (emit (Log LDebug ''eventHandler '') w) = (a, w1)"
    by (cases "run_ack m (emit (Log LDebug ''eventHandler '') w)")
  have r1: "received (effects w1) = received (effects w)"
    using received_run_ack[OF ack] by simp
  show ?thesis
  proof (cases a)
    case (Some e)
    with ack r1 show ?thesis by (simp add: eventHandler_def)
  next
    case None
    note a = this
    show ?thesis
    proof (cases "\<exists>ev. js_opt_get (msg_body m) ''event'' = JObj ev \<and> truthy (obj_get ev ''user'')")
      case False
      with ack a r1 show ?thesis
        by (auto simp: eventHandler_def split: jsval.splits)
    next
      case True
      then obtain ev where ev: "js_opt_get (msg_body m) ''event'' = JObj ev" "truthy (obj_get ev ''user'')"
        by blast
      show ?thesis
      proof (cases "js_get (msg_event m) ''user''")
        case (Inl e)
        with ack a r1 ev show ?thesis by (simp add: eventHandler_def)
      next
        case (Inr user)
        note us = this
        then have u: "js_opt_get (msg_event m) ''user'' = user" by (simp add: js_opt_get_def)
        obtain rr w2 where res: "resolve_user sb w1 user = (rr, w2)"
          by (cases "resolve_user sb w1 user")
        have r2: "received (effects w2) = received (effects w)"
          using received_resolve_user[OF res] r1 by simp
        show ?thesis
        proof (cases rr)
          case (Inl e)
          with ack a ev us res r2 show ?thesis by (simp add: eventHandler_def)
        next
          case (Inr acting)
          note fr = this
          show ?thesis
          proof (cases "js_get (self sb) ''user_id''")
            case (Inl e)
            with ack a ev us res fr r2 show ?thesis
              by (simp add: eventHandler_def)
          next
            case (Inr self_id)
            have base: "eventHandler sb w m =
                (if js_strict_eq (from_id acting) self_id then (Inr JUndefined, w2)
                 else handle_from sb m user (js_opt_get (msg_event m) ''channel'') ev acting
                        (emit (Log LDebug ''event  user = '') w2))"
              using ack a ev us res fr Inr by (simp add: eventHandler_def)
            show ?thesis
            proof (cases "js_strict_eq (from_id acting) self_id")
              case True
              with base r2 show ?thesis by simp
            next
              case False
              note ns = this
              show ?thesis
              proof (cases acting)
                case None
                with base ns r2 show ?thesis by (simp add: handle_from_def)
              next
                case (Some f)
                note f = this
                show ?thesis
                proof (cases "preprocess_text sb ev")
                  case (Inl e)
                  with base ns f r2 show ?thesis by (simp add: handle_from_def Let_def)
                next
                  case (Inr ev2)
                  note p = this
                  let ?chan = "js_opt_get (msg_event m) ''channel''"
                  let ?w' = "emit (Log LDebug ''Event subtype = '') (emit (Log LDebug ''Text = '')
                    ((emit (Log LDebug ''event  user = '') w2)
                       \<lparr>brain_users := (brain_users (emit (Log LDebug ''event  user = '') w2))
                          (to_string user \<mapsto> set_room_and_name f ?chan)\<rparr>))"
                  have "eventHandler sb w m =
                    (Inr JUndefined, caught (classify sb m user ?chan (set_room_and_name f ?chan) ev2 ?w'))"
                    using base ns f p by (simp add: handle_from_def Let_def)
                  then have eq: "received (effects (snd (eventHandler sb w m)))
                      = received (effects (snd (classify sb m (js_opt_get (msg_event m) ''user'') ?chan
                          (set_room_and_name f ?chan) ev2 ?w')))"
                    by (simp add: received_caught u)
                  have rw: "received (effects ?w') = received (effects w)"
                    using r2 by simp
                  from rw eq show ?thesis by blast
                qed
              qed
            qed
          qed
        qed
      qed
    qed
  qed
qed

text \<open>
  C7. For a \<open>member_left_channel\<close> event the classification hands the robot one
  message, \<open>LeaveMessage(user)\<close> with \<open>ts\<close> equal to \<open>message.ts\<close> of the outer
  envelope; for a \<open>member_joined_channel\<close> event it hands the robot one message,
  \<open>EnterMessage(from)\<close> with \<open>ts\<close> equal to \<open>message.event.ts\<close> of the inner event.
  For \<open>eventHandler\<close> as a whole: the robot receives either nothing (the event was
  dropped or the handler threw before the classification) or exactly that message.
\<close>

theorem C7_leave_and_enter_timestamps:
  "(js_get (msg_event m) ''type'' = Inr (JStr ''member_left_channel'') \<longrightarrow>
      received (effects (snd (classify sb m user chan acting ev w)))
        = received (effects w) @ [LeaveMessage user (msg_ts m)]
      \<and> (received (effects (snd (eventHandler sb w m))) = received (effects w)
         \<or> received (effects (snd (eventHandler sb w m)))
             = received (effects w) @ [LeaveMessage (js_opt_get (msg_event m) ''user'') (msg_ts m)]))
   \<and> (js_get (msg_event m) ''type'' = Inr (JStr ''member_joined_channel'') \<longrightarrow>
      received (effects (snd (classify sb m user chan acting ev w)))
        = received (effects w) @ [EnterMessage acting (js_opt_get (msg_event m) ''ts'')]
      \<and> (received (effects (snd (eventHandler sb w m))) = received (effects w)
         \<or> (\<exists>u. received (effects (snd (eventHandler sb w m)))
                 = received (effects w) @ [EnterMessage u (js_opt_get (msg_event m) ''ts'')])))"
proof (intro conjI impI)
  assume t: "js_get (msg_event m) ''type'' = Inr (JStr ''member_left_channel'')"
  show "received (effects (snd (classify sb m user chan acting ev w)))
        = received (effects w) @ [LeaveMessage user (msg_ts m)]"
    using t by (rule classify_left)
  show "received (effects (snd (eventHandler sb w m))) = received (effects w)
         \<or> received (effects (snd (eventHandler sb w m)))
             = received (effects w) @ [LeaveMessage (js_opt_get (msg_event m) ''user'') (msg_ts m)]"
    using eventHandler_received[of sb w m] by (auto simp: classify_left[OF t])
next
  assume t: "js_get (msg_event m) ''type'' = Inr (JStr ''member_joined_channel'')"
  show "received (effects (snd (classify sb m user chan acting ev w)))
        = received (effects w) @ [EnterMessage acting (js_opt_get (msg_event m) ''ts'')]"
    using t by (rule classify_joined)
  show "received (effects (snd (eventHandler sb w m))) = received (effects w)
         \<or> (\<exists>u. received (effects (snd (eventHandler sb w m)))
                 = received (effects w) @ [EnterMessage u (js_opt_get (msg_event m) ''ts'')])"
    using eventHandler_received[of sb w m] by (auto simp: classify_joined[OF t])
qed

text \<open>The example: the outer envelope of the leave event has the timestamp
  \<open>1700000001.000200\<close> and the inner event \<open>1700000000.000100\<close>; the join event has
  \<open>1700000003.000400\<close> outside and \<open>1700000002.000300\<close> inside.\<close>

theorem C7_leave_and_enter_timestamps_example:
  "js_get (msg_event left_message) ''type'' = Inr (JStr ''member_left_channel'')
   \<and> js_get (msg_event left_message) ''ts'' = Inr (JStr ''1700000000.000100'')
   \<and> received (effects (snd (classify example_bot left_message (JStr ''U2'') (JStr ''C1'') [] left_event new_world)))
       = [LeaveMessage (JStr ''U2'') (JStr ''1700000001.000200'')]
   \<and> received (effects (snd (eventHandler example_bot example_brain left_message)))
       = [LeaveMessage (JStr ''U2'') (JStr ''1700000001.000200'')]
   \<and> js_get (msg_event joined_message) ''type'' = Inr (JStr ''member_joined_channel'')
   \<and> msg_ts joined_message = JStr ''1700000003.000400''
   \<and> received (effects (snd (eventHandler example_bot example_brain joined_message)))
       = [EnterMessage [(''id'', JStr ''U2''), (''name'', JStr ''alice''), (''karma'', JNum (Num 7)),
                        (''room'', JStr ''C1'')]
            (JStr ''1700000002.000300'')]"
proof -
  have tl: "js_get (msg_event left_message) ''type'' = Inr (JStr ''member_left_channel'')"
    and sl: "js_get (msg_event left_message) ''ts'' = Inr (JStr ''1700000000.000100'')"
    and ml: "msg_ts left_message = JStr ''1700000001.000200''"
    by (simp_all add: left_message_def left_event_def obj_get_def)
  have tj: "js_get (msg_event joined_message) ''type'' = Inr (JStr ''member_joined_channel'')"
    and mj: "msg_ts joined_message = JStr ''1700000003.000400''"
    by (simp_all add: joined_message_def joined_event_def obj_get_def)
  have nw: "received (effects new_world) = []" by (simp add: new_world_def)
  note T = C7_leave_and_enter_timestamps[where m = left_message and sb = example_bot
      and user = "JStr ''U2''" and chan = "JStr ''C1''" and acting = "[]" and ev = left_event
      and w = new_world]
  from T tl have cl: "received (effects (snd (classify example_bot left_message (JStr ''U2'') (JStr ''C1'')
        [] left_event new_world))) = [LeaveMessage (JStr ''U2'') (JStr ''1700000001.000200'')]"
    by (simp add: nw ml)
  have pl: "preprocess_text example_bot left_event =
      Inr [(''type'', JStr ''member_left_channel''), (''user'', JStr ''U2''), (''channel'', JStr ''C1''),
           (''ts'', JStr ''1700000000.000100''), (''text'', JStr [])]"
    by (simp add: preprocess_text_def addBotIdToMessage_def replaceBotIdWithName_def event_text_def
      and_then_def example_bot_def left_event_def obj_get_def js_opt_get_def nullish_or_def nullish_def
      mention_def obj_set_def)
  have el: "received (effects (snd (eventHandler example_bot example_brain left_message)))
       = [LeaveMessage (JStr ''U2'') (JStr ''1700000001.000200'')]"
    by (simp add: eventHandler_def handle_from_def pl[unfolded example_bot_def left_event_def] run_ack_def
        resolve_user_def left_message_def example_brain_def new_world_def from_id_def
        set_room_and_name_def classify_def receive_msg_def caught_def emit_def
        obj_get_def js_opt_get_def nullish_or_def nullish_def obj_set_def example_bot_def
        left_event_def Let_def)
  have pj: "preprocess_text example_bot joined_event =
      Inr [(''type'', JStr ''member_joined_channel''), (''user'', JStr ''U2''), (''channel'', JStr ''C1''),
           (''ts'', JStr ''1700000002.000300''), (''text'', JStr [])]"
    by (simp add: preprocess_text_def addBotIdToMessage_def replaceBotIdWithName_def event_text_def
      and_then_def example_bot_def joined_event_def obj_get_def js_opt_get_def nullish_or_def nullish_def
      mention_def obj_set_def)
  have ej: "received (effects (snd (eventHandler example_bot example_brain joined_message)))
       = [EnterMessage [(''id'', JStr ''U2''), (''name'', JStr ''alice''), (''karma'', JNum (Num 7)),
                        (''room'', JStr ''C1'')]
            (JStr ''1700000002.000300'')]"
    by (simp add: eventHandler_def handle_from_def pj[unfolded example_bot_def joined_event_def] run_ack_def
        resolve_user_def joined_message_def example_brain_def new_world_def from_id_def
        set_room_and_name_def classify_def receive_msg_def caught_def emit_def
        obj_get_def js_opt_get_def nullish_or_def nullish_def obj_set_def example_bot_def
        joined_event_def Let_def)
  from tl sl cl el tj mj ej show ?thesis by (simp only: simp_thms)
qed

end
